theory Spec2Isabelle
  imports Complex_Main
begin

section \<open>Numbers and strings of the host language\<close>

text \<open>
  The service in \<^verbatim>\<open>src/lib/polynance-sdk.ts\<close> computes with JavaScript numbers.
  A finite number is modelled as a \<^typ>\<open>real\<close> with exact arithmetic (rounding of
  doubles is not modelled). Where the source can leave the finite numbers (an invalid
  \<^verbatim>\<open>Date\<close>, a division by a zero price) the value is a \<open>jsnum\<close>, which has the
  three non-finite values of the language.
\<close>

datatype jsnum = NaN | PosInf | NegInf | Fin real

text \<open>\<^verbatim>\<open>Math.max(0, x)\<close>: a NaN argument gives NaN.\<close>

fun mathMax0 :: "jsnum \<Rightarrow> jsnum" where
  "mathMax0 NaN = NaN"
| "mathMax0 PosInf = PosInf"
| "mathMax0 NegInf = Fin 0"
| "mathMax0 (Fin x) = Fin (max 0 x)"

text \<open>Division of a number by a finite, non-zero constant.\<close>

fun divConst :: "jsnum \<Rightarrow> real \<Rightarrow> jsnum" where
  "divConst NaN c = NaN"
| "divConst PosInf c = (if 0 < c then PosInf else NegInf)"
| "divConst NegInf c = (if 0 < c then NegInf else PosInf)"
| "divConst (Fin x) c = Fin (x / c)"

section \<open>The environment of a call\<close>

text \<open>
  What the source reads from the runtime is a parameter of the model:
  \<^item> \<open>now\<close>: \<^verbatim>\<open>Date.now()\<close> (and \<^verbatim>\<open>new Date().getTime()\<close>), in milliseconds;
  \<^item> \<open>dateParse\<close>: the time value of \<^verbatim>\<open>new Date(s)\<close>, \<open>None\<close> for an invalid date
    (whose \<^verbatim>\<open>getTime()\<close> is NaN);
  \<^item> \<open>random\<close>: the successive results of \<^verbatim>\<open>Math.random()\<close>;
  \<^item> \<open>toString16\<close>: \<^verbatim>\<open>x.toString(16)\<close>; \<open>numberToString\<close>: the conversion of a number
    inside a template literal;
  \<^item> \<open>setDatePlus t d\<close>: the time value after \<^verbatim>\<open>setDate(getDate() + d)\<close> on a date
    with time value \<open>t\<close>; \<open>toISOString\<close>: \<^verbatim>\<open>toISOString()\<close> of a valid date;
  \<^item> \<open>completionRank\<close>: for the callbacks that \<^verbatim>\<open>Promise.all\<close> awaits, when the callback
    of a slot reaches its end, as the provider's timing decides; a smaller rank is earlier.
\<close>

record env =
  now :: real
  dateParse :: "string \<Rightarrow> real option"
  random :: "nat \<Rightarrow> real"
  toString16 :: "real \<Rightarrow> string"
  numberToString :: "real \<Rightarrow> string"
  setDatePlus :: "real \<Rightarrow> real \<Rightarrow> real"
  toISOString :: "real \<Rightarrow> string"
  completionRank :: "nat \<Rightarrow> nat"

section \<open>Market Snapshot Builder: remaining hours\<close>

text \<open>
  \<^verbatim>\<open>calculateRemainingHours\<close> (lines 572-582). No operation of its \<^verbatim>\<open>try\<close> block
  throws (\<^verbatim>\<open>new Date(s)\<close> of an unparseable string is an invalid date, not an
  exception), so the \<^verbatim>\<open>catch\<close> branch is never entered and the function is total.
\<close>

definition calculateRemainingHours :: "env \<Rightarrow> string \<Rightarrow> jsnum" where
  "calculateRemainingHours ev endDateStr =
     (let endDate = dateParse ev endDateStr;
          diffMs = (case endDate of None \<Rightarrow> NaN | Some t \<Rightarrow> Fin (t - now ev))
      in mathMax0 (divConst diffMs (1000 * 60 * 60)))"

section \<open>Trade records and candles\<close>

text \<open>
  \<^verbatim>\<open>TradeRecord\<close> comes from the data provider's package; the service reads and
  writes the four fields below (the trader tag is added by the service itself).
\<close>

record TradeRecord =
  t_price :: real
  t_volumeBase :: real
  t_timestamp :: real
  t_trader :: "string option"

record CandleData =
  c_time :: real
  c_open :: real
  c_high :: real
  c_low :: real
  c_close :: real
  c_volume :: real

text \<open>\<^verbatim>\<open>x || 0\<close> on a number.\<close>

definition orZero :: "real \<Rightarrow> real" where
  "orZero x = (if x = 0 then 0 else x)"

text \<open>
  The OHLCV values of one non-empty bucket (lines 468-481), whose first record is \<open>r\<close>:
  \<^verbatim>\<open>Math.max(...)\<close> and \<^verbatim>\<open>Math.min(...)\<close> over the prices, \<^verbatim>\<open>reduce\<close> from 0
  over the volumes.
\<close>

definition candleOf :: "real \<Rightarrow> TradeRecord \<Rightarrow> TradeRecord list \<Rightarrow> CandleData" where
  "candleOf candleStart r rs =
     \<lparr> c_time = candleStart / 1000,
       c_open = t_price r,
       c_high = foldl max (t_price r) (map t_price rs),
       c_low = foldl min (t_price r) (map t_price rs),
       c_close = t_price (last (r # rs)),
       c_volume = foldl (\<lambda>sum x. sum + orZero (t_volumeBase x)) 0 (r # rs) \<rparr>"

text \<open>
  The \<^verbatim>\<open>for\<close> loop of lines 457-483. Nothing in the source bounds it when the step is
  not positive, so it is a partial function: \<open>None\<close> stands for a loop that never ends.
\<close>

partial_function (option) candleLoop ::
  "TradeRecord list \<Rightarrow> real \<Rightarrow> real \<Rightarrow> real \<Rightarrow> CandleData list \<Rightarrow> CandleData list option"
where
  "candleLoop sortedRecords intervalMs endTime time candles =
     (if time \<le> endTime then
        (let candleStart = time;
             candleEnd = time + intervalMs;
             intervalRecords =
               filter (\<lambda>record. t_timestamp record * 1000 \<ge> candleStart
                                \<and> t_timestamp record * 1000 < candleEnd) sortedRecords
         in candleLoop sortedRecords intervalMs endTime (time + intervalMs)
              (case intervalRecords of
                 [] \<Rightarrow> candles
               | r # rs \<Rightarrow> candles @ [candleOf candleStart r rs]))
      else Some candles)"

declare candleLoop.simps [code]

text \<open>
  Arrays of trade records live in a store, addressed by their index in it, because the
  source sorts in place: \<^verbatim>\<open>[...a]\<close> allocates a copy and \<^verbatim>\<open>.sort\<close> overwrites the
  array it is called on. The comparator \<^verbatim>\<open>a.timestamp - b.timestamp\<close> with the stable
  sort of the language is \<open>sort_key t_timestamp\<close>.
\<close>

type_synonym arrays = "TradeRecord list list"

definition spread :: "arrays \<Rightarrow> nat \<Rightarrow> arrays \<times> nat" where
  "spread h a = (h @ [h ! a], length h)"

definition sortByTimestamp :: "arrays \<Rightarrow> nat \<Rightarrow> arrays" where
  "sortByTimestamp h a = h[a := sort_key t_timestamp (h ! a)]"

text \<open>
  \<^verbatim>\<open>generateCandleData\<close> (lines 441-486); \<open>tradeRecords\<close> is the address of the
  caller's array. The result is the candles and the store after the call.
\<close>

definition generateCandleData ::
  "arrays \<Rightarrow> nat \<Rightarrow> real \<Rightarrow> (CandleData list \<times> arrays) option" where
  "generateCandleData h tradeRecords intervalHours =
     (if length (h ! tradeRecords) = 0 then Some ([], h)
      else
        (let intervalMs = intervalHours * 60 * 60 * 1000;
             (h1, sortedRecords) = spread h tradeRecords;
             h2 = sortByTimestamp h1 sortedRecords;
             startTime = t_timestamp (h2 ! sortedRecords ! 0) * 1000;
             endTime = t_timestamp (h2 ! sortedRecords ! (length (h2 ! sortedRecords) - 1)) * 1000
         in map_option (\<lambda>candles. (candles, h2))
              (candleLoop (h2 ! sortedRecords) intervalMs endTime startTime [])))"

text \<open>
  The candle contract in the words of the specification: the series sorted by timestamp,
  buckets of the given width from the first timestamp to the last, one candle for each
  bucket that has a trade.
\<close>

definition bucketOf :: "TradeRecord list \<Rightarrow> real \<Rightarrow> nat \<Rightarrow> TradeRecord list" where
  "bucketOf xs intervalHours k =
     (let sorted = sort_key t_timestamp xs;
          width = intervalHours * 3600000;
          first = t_timestamp (hd sorted) * 1000
      in filter (\<lambda>r. first + real k * width \<le> t_timestamp r * 1000
                    \<and> t_timestamp r * 1000 < first + real (k + 1) * width) sorted)"

definition bucketCount :: "TradeRecord list \<Rightarrow> real \<Rightarrow> nat" where
  "bucketCount xs intervalHours =
     (let sorted = sort_key t_timestamp xs
      in nat \<lfloor>(t_timestamp (last sorted) * 1000 - t_timestamp (hd sorted) * 1000)
               / (intervalHours * 3600000)\<rfloor> + 1)"

definition bucketCandle :: "TradeRecord list \<Rightarrow> real \<Rightarrow> nat \<Rightarrow> CandleData" where
  "bucketCandle xs intervalHours k =
     (let b = bucketOf xs intervalHours k
      in \<lparr> c_time = (t_timestamp (hd (sort_key t_timestamp xs)) * 1000
                      + real k * (intervalHours * 3600000)) / 1000,
           c_open = t_price (hd b),
           c_high = Max (t_price ` set b),
           c_low = Min (t_price ` set b),
           c_close = t_price (last b),
           c_volume = sum_list (map t_volumeBase b) \<rparr>)"

definition candlesSpec :: "TradeRecord list \<Rightarrow> real \<Rightarrow> CandleData list" where
  "candlesSpec xs intervalHours =
     map (bucketCandle xs intervalHours)
       (filter (\<lambda>k. bucketOf xs intervalHours k \<noteq> []) [0 ..< bucketCount xs intervalHours])"

text \<open>
  An environment for the worked examples: only one date string parses, numbers are
  converted to strings as the language does for the three numbers the examples convert,
  and the callbacks end in slot order.
\<close>

definition sampleEnv :: env where
  "sampleEnv = \<lparr> now = 1700000000000,
                 dateParse = (\<lambda>s. if s = ''2023-11-15T00:00:00Z'' then Some 1700006400000 else None),
                 random = (\<lambda>n. 1 / 2),
                 toString16 = (\<lambda>x. ''0.8''),
                 numberToString = (\<lambda>x. if x = 17 / 2 then ''8.5''
                                       else if x = 10 ^ 24 - 100 then ''1e+24''
                                       else if x = (10 ^ 24 - 100) / 2 then ''5e+23''
                                       else ''?''),
                 setDatePlus = (\<lambda>t d. t + d * 86400000),
                 toISOString = (\<lambda>t. ''2023-11-14T22:13:20.000Z''),
                 completionRank = (\<lambda>i. i) \<rparr>"

text \<open>One pass of the loop, for the proofs: the candles that the \<open>k\<close>-th pass appends.\<close>

definition stepCandles :: "TradeRecord list \<Rightarrow> real \<Rightarrow> real \<Rightarrow> nat \<Rightarrow> CandleData list" where
  "stepCandles srt w first k =
     (case filter (\<lambda>r. first + real k * w \<le> t_timestamp r * 1000
                       \<and> t_timestamp r * 1000 < first + real k * w + w) srt of
        [] \<Rightarrow> [] | r # rs \<Rightarrow> [candleOf (first + real k * w) r rs])"

text \<open>Sample series: one trade per hour for ten hours, and an unsorted series of three.\<close>

definition trade :: "real \<Rightarrow> real \<Rightarrow> real \<Rightarrow> TradeRecord" where
  "trade t p v = \<lparr> t_price = p, t_volumeBase = v, t_timestamp = t, t_trader = None \<rparr>"


definition unsortedTrades :: "TradeRecord list" where
  "unsortedTrades = [trade 7200 (1 / 2) 1, trade 0 (3 / 5) 2, trade 36000 (7 / 10) 3]"

section \<open>Number formatting and parsing\<close>

definition digitChar :: "nat \<Rightarrow> char" where
  "digitChar n = ''0123456789'' ! n"

fun showNat :: "nat \<Rightarrow> string" where
  "showNat n = (if n < 10 then [digitChar n] else showNat (n div 10) @ [digitChar (n mod 10)])"

declare showNat.simps [simp del]

text \<open>
  Fixed notation with \<open>digits\<close> decimals: the sign, then the integer \<open>n\<close> nearest to
  \<open>|x| * 10^digits\<close> (the larger one on a tie) written with a decimal point before its
  last \<open>digits\<close> digits.
\<close>

definition fixedNotation :: "nat \<Rightarrow> real \<Rightarrow> string" where
  "fixedNotation digits x =
     (let n = nat \<lfloor>\<bar>x\<bar> * 10 ^ digits + 1 / 2\<rfloor>;
          s = showNat n;
          padded = replicate (digits + 1 - length s) (CHR ''0'') @ s;
          k = length padded - digits
      in (if x < 0 then ''-'' else '''') @ take k padded
         @ (if digits = 0 then '''' else ''.'' @ drop k padded))"

text \<open>
  \<^verbatim>\<open>x.toFixed(digits)\<close> for a finite \<open>x\<close>: fixed notation below \<open>10^21\<close> in absolute
  value; from \<open>10^21\<close> on, the sign and the conversion of \<open>|x|\<close> to a string, which is in
  exponent notation. \<open>toFixedNumber\<close> is \<^verbatim>\<open>Number(x.toFixed(digits))\<close>, which reads that
  string back.
\<close>

definition toFixed :: "env \<Rightarrow> nat \<Rightarrow> real \<Rightarrow> string" where
  "toFixed ev digits x =
     (if \<bar>x\<bar> \<ge> 10 ^ 21 then (if x < 0 then ''-'' else '''') @ numberToString ev \<bar>x\<bar>
      else fixedNotation digits x)"

definition toFixedNumber :: "nat \<Rightarrow> real \<Rightarrow> real" where
  "toFixedNumber digits x =
     (if \<bar>x\<bar> \<ge> 10 ^ 21 then x
      else
        (let n = nat \<lfloor>\<bar>x\<bar> * 10 ^ digits + 1 / 2\<rfloor>
         in (if x < 0 then - 1 else 1) * real n / 10 ^ digits))"

text \<open>
  Arithmetic that can leave the finite numbers (lines 624-632). A zero divisor is taken
  as positive zero.
\<close>

definition jsDivide :: "real \<Rightarrow> real \<Rightarrow> jsnum" where
  "jsDivide a b =
     (if b = 0 then (if a = 0 then NaN else if 0 < a then PosInf else NegInf)
      else Fin (a / b))"

fun jsAdd :: "jsnum \<Rightarrow> jsnum \<Rightarrow> jsnum" where
  "jsAdd (Fin a) (Fin b) = Fin (a + b)"
| "jsAdd NaN y = NaN"
| "jsAdd x NaN = NaN"
| "jsAdd PosInf NegInf = NaN"
| "jsAdd NegInf PosInf = NaN"
| "jsAdd PosInf y = PosInf"
| "jsAdd NegInf y = NegInf"
| "jsAdd x PosInf = PosInf"
| "jsAdd x NegInf = NegInf"

fun jsGe0 :: "jsnum \<Rightarrow> bool" where
  "jsGe0 (Fin x) = (0 \<le> x)"
| "jsGe0 PosInf = True"
| "jsGe0 x = False"

fun mulConst :: "jsnum \<Rightarrow> real \<Rightarrow> jsnum" where
  "mulConst (Fin x) c = Fin (x * c)"
| "mulConst NaN c = NaN"
| "mulConst PosInf c = (if 0 < c then PosInf else NegInf)"
| "mulConst NegInf c = (if 0 < c then NegInf else PosInf)"

fun toFixedJ :: "env \<Rightarrow> nat \<Rightarrow> jsnum \<Rightarrow> string" where
  "toFixedJ ev digits (Fin x) = toFixed ev digits x"
| "toFixedJ ev digits NaN = ''NaN''"
| "toFixedJ ev digits PosInf = ''Infinity''"
| "toFixedJ ev digits NegInf = ''-Infinity''"

text \<open>Digits, \<^verbatim>\<open>parseInt\<close> (radix 10, or 16 after a \<^verbatim>\<open>0x\<close> prefix) and lower case.\<close>

definition isDigit :: "char \<Rightarrow> bool" where
  "isDigit c = (c \<in> set ''0123456789'')"

definition digitValue :: "char \<Rightarrow> nat" where
  "digitValue c =
     (case map_of (zip ''0123456789abcdefABCDEF''
                       [0, 1, 2, 3, 4, 5, 6, 7, 8, 9, 10, 11, 12, 13, 14, 15, 10, 11, 12, 13, 14, 15]) c of
        Some v \<Rightarrow> v | None \<Rightarrow> 0)"

definition digitsToNat :: "nat \<Rightarrow> string \<Rightarrow> nat" where
  "digitsToNat radix ds = foldl (\<lambda>a c. radix * a + digitValue c) 0 ds"

definition isWhiteSpace :: "char \<Rightarrow> bool" where
  "isWhiteSpace c = (c \<in> set [CHR '' '', CHR 0x09, CHR 0x0A, CHR 0x0B, CHR 0x0C, CHR 0x0D, CHR 0xA0])"

text \<open>\<^verbatim>\<open>Number.parseInt(s)\<close>; \<open>None\<close> is NaN.\<close>

definition parseInt :: "string \<Rightarrow> real option" where
  "parseInt s =
     (let t = dropWhile isWhiteSpace s;
          negative = (take 1 t = ''-'');
          u = (if take 1 t = ''-'' \<or> take 1 t = ''+'' then drop 1 t else t);
          hex = (take 2 u = ''0x'' \<or> take 2 u = ''0X'');
          ds = (if hex then takeWhile (\<lambda>c. c \<in> set ''0123456789abcdefABCDEF'') (drop 2 u)
                else takeWhile isDigit u)
      in if ds = [] then None
         else Some ((if negative then - 1 else 1) * real (digitsToNat (if hex then 16 else 10) ds)))"

definition toLowerChar :: "char \<Rightarrow> char" where
  "toLowerChar c =
     (case map_of (zip ''ABCDEFGHIJKLMNOPQRSTUVWXYZ'' ''abcdefghijklmnopqrstuvwxyz'') c of
        Some l \<Rightarrow> l | None \<Rightarrow> c)"

definition toLowerCase :: "string \<Rightarrow> string" where
  "toLowerCase s = map toLowerChar s"

text \<open>
  The capture of the first match of \<^verbatim>\<open>/(\d+) days?/\<close>: at each position from the left,
  a greedy run of digits followed by \<^verbatim>\<open>" day"\<close> (giving digits back cannot help, since
  the next character would be a digit, not a space).
\<close>

fun daysMatch :: "string \<Rightarrow> string option" where
  "daysMatch [] = None"
| "daysMatch (c # cs) =
     (let ds = takeWhile isDigit (c # cs);
          rest = dropWhile isDigit (c # cs)
      in if ds \<noteq> [] \<and> take 4 rest = '' day'' then Some ds else daysMatch cs)"

section \<open>Data model\<close>

text \<open>An error value: \<^verbatim>\<open>new Error(message)\<close>, thrown or carried by a rejected promise.\<close>

datatype error = Error string

text \<open>
  The records the data provider returns. Their types are declared in the provider's
  package; the fields are those the service reads. \<open>pt_price\<close> is \<^verbatim>\<open>Number(token.price)\<close>,
  \<open>None\<close> when that is NaN; an optional string is \<open>None\<close> when undefined.
\<close>

record PositionToken =
  pt_name :: string
  pt_price :: "real option"

record Exchange =
  e_id :: string
  e_name :: string
  e_groupItemTitle :: "string option"
  e_end :: string
  e_icon :: "string option"
  e_position_tokens :: "PositionToken list"
  e_description :: "string option"

record OrderBookSummary =
  ob_market :: string
  ob_asset_id :: string
  ob_timestamp :: real
  ob_bids :: "(real \<times> real) list"
  ob_asks :: "(real \<times> real) list"
  ob_hash :: string

type_synonym orderbook = "(string \<times> OrderBookSummary) list"

record Market =
  m_id :: string
  m_name :: string
  m_proportion :: real
  m_price :: real
  m_category :: string
  m_remainingHours :: jsnum
  m_icon :: string
  m_priceHistory :: "TradeRecord list list option"
  m_orderbook :: "orderbook option"
  m_volume :: real
  m_end :: string
  m_position :: "string option"
  m_description :: "string option"

text \<open>
  An \<^verbatim>\<open>Index\<close>. Its \<open>markets\<close> are references: addresses of \<^verbatim>\<open>Market\<close> objects in
  the store of the service, since the service hands the same object to every index that
  lists the market and writes to it in place.
\<close>

record Index =
  i_id :: string
  i_name :: string
  i_makrtesIds :: "string list"
  i_positionNames :: "int list"
  i_icons :: "string list"
  i_avgPrice :: real
  i_confilmYield :: real
  i_status :: string
  i_contractAddress :: string
  i_resolutionTime :: string
  i_priceChange24h :: "string option"
  i_yieldRange :: "string option"
  i_yieldLoss :: "string option"
  i_markets :: "nat list option"
  i_daysRemaining :: "real option"
  i_volume :: "real option"
  i_marketCap :: "real option"
  i_settlementDate :: "string option"
  i_expired :: "bool option"

definition mkIndex ::
  "string \<Rightarrow> string \<Rightarrow> string list \<Rightarrow> int list \<Rightarrow> string \<Rightarrow> string \<Rightarrow> string \<Rightarrow> Index" where
  "mkIndex ident nm ids positions status address resolution =
     \<lparr> i_id = ident, i_name = nm, i_makrtesIds = ids, i_positionNames = positions,
       i_icons = ['''', '''', '''', ''''], i_avgPrice = 0, i_confilmYield = 0,
       i_status = status, i_contractAddress = address, i_resolutionTime = resolution,
       i_priceChange24h = None, i_yieldRange = None, i_yieldLoss = None, i_markets = None,
       i_daysRemaining = None, i_volume = None, i_marketCap = None,
       i_settlementDate = None, i_expired = None \<rparr>"

text \<open>\<^verbatim>\<open>predefinedIndexes\<close> (lines 65-125).\<close>

definition predefinedIndexes :: "Index list" where
  "predefinedIndexes =
     [ mkIndex ''non-viable-candidate'' ''Non-Viable Candidate Index''
         [''534197'', ''534220'', ''528716'', ''528717''] [2, 2, 2, 2]
         ''Active'' ''0xC01BbFC94C41F0D8Fc242cFe8465ea4dcD4f20C5'' ''3 days'',
       mkIndex ''reliable-forecast'' ''Reliable Forecast Index''
         [''516909'', ''514138'', ''544924'', ''543148''] [1, 1, 1, 1]
         ''Inactive'' ''0x787dE5d30d327Ed20b3CaE7227f0aEcAcda2852E'' ''4 days'',
       mkIndex ''90-percent-index'' ''90% Index of Yes and No''
         [''544924'', ''543148'', ''528716'', ''528717''] [1, 1, 2, 2]
         ''Active'' ''0x2f583fa67768b4d0c092ce35455202602ec60c76'' ''3 days'',
       mkIndex ''polynance-ai-random'' ''Polynance AI Random Select Index''
         [''516960'', ''517124'', ''520435'', ''20789''] [1, 1, 1, 1]
         ''Active'' ''0x0557EceeAD263249368B07E12e9f6C1FC59878eB'' ''3 days '',
       mkIndex ''cos similar 0.7 `Japan`'' ''Cos Similarity 0.7 Japan''
         [''522638'', ''522637'', ''517000'', ''532750''] [2, 1, 2, 2]
         ''Active'' ''0xd189321231B8A71493506eC87b959bed191E8f4d'' ''3 days '' ]"

definition getPredefinedIndex :: "string \<Rightarrow> Index option" where
  "getPredefinedIndex indexId = find (\<lambda>index. i_id index = indexId) predefinedIndexes"

text \<open>
  The data provider (\<^verbatim>\<open>this.sdk\<close>): each call gives a record or fails with an error.
\<close>

record sdk =
  getExchange :: "string \<Rightarrow> string \<Rightarrow> error + Exchange"
  getPriceHistory :: "string \<Rightarrow> string \<Rightarrow> error + TradeRecord list list"
  getOrderbook :: "string \<Rightarrow> string \<Rightarrow> error + orderbook"

text \<open>
  The state of the service: its four caches, the store of \<^verbatim>\<open>Market\<close> objects (an
  address is an index into \<open>objects\<close>) and the number of \<^verbatim>\<open>Math.random()\<close> results
  consumed so far. The market cache holds references.
\<close>

record service =
  cachedIndexes :: "string \<rightharpoonup> Index"
  cachedMarkets :: "string \<rightharpoonup> nat"
  cachedPriceHistories :: "string \<rightharpoonup> TradeRecord list"
  cachedOrderbooks :: "string \<rightharpoonup> orderbook"
  objects :: "Market list"
  randoms :: nat

definition newService :: service where
  "newService = \<lparr> cachedIndexes = Map.empty, cachedMarkets = Map.empty,
                   cachedPriceHistories = Map.empty, cachedOrderbooks = Map.empty,
                   objects = [], randoms = 0 \<rparr>"

section \<open>The service\<close>

text \<open>\<^verbatim>\<open>x || d\<close> on an optional string: the default for undefined and for the empty string.\<close>

definition orString :: "string option \<Rightarrow> string \<Rightarrow> string" where
  "orString x d = (case x of None \<Rightarrow> d | Some s \<Rightarrow> if s = [] then d else s)"

text \<open>\<^verbatim>\<open>getAveragePrice\<close> (lines 553-565).\<close>

definition getAveragePrice :: "Exchange \<Rightarrow> real" where
  "getAveragePrice exchange =
     (if length (e_position_tokens exchange) = 0 then 0
      else
        (let totalPrice =
               foldl (\<lambda>sum token.
                        let price = (case pt_price token of None \<Rightarrow> 0 | Some p \<Rightarrow> orZero p)
                        in sum + price) 0 (e_position_tokens exchange)
         in totalPrice / real (length (e_position_tokens exchange))))"

text \<open>The cache key \<^verbatim>\<open>`${provider}-${marketId}`\<close>.\<close>

definition cacheKey :: "string \<Rightarrow> string \<Rightarrow> string" where
  "cacheKey provider marketId = provider @ ''-'' @ marketId"

text \<open>
  \<^verbatim>\<open>getMarket\<close> (lines 175-209). The result is the address of the \<^verbatim>\<open>Market\<close> object:
  the cached one on a hit, a newly allocated and cached one after a fetch. A failed
  fetch is caught and thrown again with a longer message.
\<close>

definition getMarket ::
  "env \<Rightarrow> sdk \<Rightarrow> string \<Rightarrow> string \<Rightarrow> service \<Rightarrow> (error + nat) \<times> service" where
  "getMarket ev sd provider marketId s =
     (case cachedMarkets s (cacheKey provider marketId) of
        Some a \<Rightarrow> (Inr a, s)
      | None \<Rightarrow>
          (case getExchange sd provider marketId of
             Inl (Error message) \<Rightarrow>
               (Inl (Error (''Failed to fetch market '' @ marketId @ '': '' @ message)), s)
           | Inr exchange \<Rightarrow>
               (let market =
                      \<lparr> m_id = e_id exchange,
                        m_name = e_name exchange,
                        m_proportion = 1,
                        m_price = getAveragePrice exchange,
                        m_category = orString (e_groupItemTitle exchange) ''General'',
                        m_remainingHours = calculateRemainingHours ev (e_end exchange),
                        m_icon = orString (e_icon exchange) '''',
                        m_priceHistory = None,
                        m_orderbook = None,
                        m_volume = 0,
                        m_end = e_end exchange,
                        m_position =
                          Some (orString (case e_position_tokens exchange of
                                            [] \<Rightarrow> None | token # _ \<Rightarrow> Some (pt_name token))
                                  ''Unknown''),
                        m_description = e_description exchange \<rparr>;
                    a = length (objects s)
                in (Inr a, s\<lparr> objects := objects s @ [market],
                              cachedMarkets := (cachedMarkets s)(cacheKey provider marketId \<mapsto> a) \<rparr>))))"

text \<open>
  \<^verbatim>\<open>getMarketPriceHistory\<close> (lines 217-243). After a fetch it writes the volume of the
  cached \<^verbatim>\<open>Market\<close> object, in place; it has no statement that stores the fetched
  history in \<open>cachedPriceHistories\<close>.
\<close>

definition getMarketPriceHistory ::
  "sdk \<Rightarrow> string \<Rightarrow> string \<Rightarrow> service \<Rightarrow> (error + TradeRecord list list) \<times> service" where
  "getMarketPriceHistory sd provider marketId s =
     (case cachedPriceHistories s (cacheKey provider marketId) of
        Some cached \<Rightarrow> (Inr [cached], s)
      | None \<Rightarrow>
          (case getPriceHistory sd provider marketId of
             Inl (Error message) \<Rightarrow>
               (Inl (Error (''Failed to fetch price history for market '' @ marketId @ '': '' @ message)), s)
           | Inr priceHistory \<Rightarrow>
               (case cachedMarkets s (cacheKey provider marketId) of
                  Some market \<Rightarrow>
                    (if length priceHistory > 0 \<and> length (priceHistory ! 0) > 0 then
                       (let marketVolume =
                              foldl (\<lambda>sum trade. sum + orZero (t_volumeBase trade)) 0 (priceHistory ! 0)
                        in (Inr priceHistory,
                            s\<lparr> objects := (objects s)[market := (objects s ! market)\<lparr> m_volume := marketVolume \<rparr>],
                               cachedMarkets := (cachedMarkets s)(cacheKey provider marketId \<mapsto> market) \<rparr>))
                     else (Inr priceHistory, s))
                | None \<Rightarrow> (Inr priceHistory, s))))"

text \<open>\<^verbatim>\<open>getMarketOrderbook\<close> (lines 251-275).\<close>

definition getMarketOrderbook ::
  "sdk \<Rightarrow> string \<Rightarrow> string \<Rightarrow> service \<Rightarrow> (error + orderbook) \<times> service" where
  "getMarketOrderbook sd provider marketId s =
     (case cachedOrderbooks s (cacheKey provider marketId) of
        Some cached \<Rightarrow> (Inr cached, s)
      | None \<Rightarrow>
          (case getOrderbook sd provider marketId of
             Inl (Error message) \<Rightarrow>
               (Inl (Error (''Failed to fetch orderbook for market '' @ marketId @ '': '' @ message)), s)
           | Inr ob \<Rightarrow>
               (Inr ob, s\<lparr> cachedOrderbooks := (cachedOrderbooks s)(cacheKey provider marketId \<mapsto> ob) \<rparr>)))"

text \<open>
  \<^verbatim>\<open>index.positionNames[i]\<close>: undefined past the end of the array, and then not equal
  to 1.
\<close>

definition codeAt :: "int list \<Rightarrow> nat \<Rightarrow> int option" where
  "codeAt positionNames i = (if i < length positionNames then Some (positionNames ! i) else None)"

text \<open>
  \<^verbatim>\<open>createFallbackMarket\<close> (lines 734-749): a new object, allocated in the store; four
  random numbers in the order of the fields.
\<close>

definition fallbackMarket :: "env \<Rightarrow> string \<Rightarrow> nat \<Rightarrow> int option \<Rightarrow> nat \<Rightarrow> Market" where
  "fallbackMarket ev marketId totalMarkets positionType k =
     \<lparr> m_id = marketId,
       m_name = ''Market '' @ marketId,
       m_proportion = 1 / real totalMarkets,
       m_price = 0.7 + random ev k * 0.25,
       m_category = ''Unknown'',
       m_remainingHours = Fin (real_of_int \<lfloor>random ev (k + 1) * 72\<rfloor>),
       m_icon = '''',
       m_priceHistory = Some [],
       m_orderbook = Some [],
       m_volume = random ev (k + 2) * 1000000,
       m_end = toISOString ev (now ev + random ev (k + 3) * 86400000 * 7),
       m_position = Some (if positionType = Some 1 then ''YES'' else ''NO''),
       m_description = None \<rparr>"

definition createFallbackMarket ::
  "env \<Rightarrow> string \<Rightarrow> nat \<Rightarrow> nat \<Rightarrow> int option \<Rightarrow> service \<Rightarrow> nat \<times> service" where
  "createFallbackMarket ev marketId index totalMarkets positionType s =
     (length (objects s),
      s\<lparr> objects := objects s @ [fallbackMarket ev marketId totalMarkets positionType (randoms s)],
         randoms := randoms s + 4 \<rparr>)"

text \<open>A write to a field of the object at an address.\<close>

definition updateObject :: "nat \<Rightarrow> (Market \<Rightarrow> Market) \<Rightarrow> service \<Rightarrow> service" where
  "updateObject a f s = s\<lparr> objects := (objects s)[a := f (objects s ! a)] \<rparr>"

text \<open>The objects an index refers to.\<close>

definition marketsOf :: "service \<Rightarrow> Index \<Rightarrow> Market list" where
  "marketsOf s index = (case i_markets index of None \<Rightarrow> [] | Some as \<Rightarrow> map (\<lambda>a. objects s ! a) as)"

section \<open>Index Compositor\<close>

text \<open>One pass of the \<^verbatim>\<open>forEach\<close> of lines 619-628 over the price change and its count.\<close>

definition priceChangeStep :: "jsnum \<times> nat \<Rightarrow> Market \<Rightarrow> jsnum \<times> nat" where
  "priceChangeStep acc market =
     (case acc of (priceChange, validMarkets) \<Rightarrow>
        (case m_priceHistory market of
           None \<Rightarrow> (priceChange, validMarkets)
         | Some ph \<Rightarrow>
             (if length ph > 0 \<and> length (ph ! 0) > 1 then
                (let history = ph ! 0;
                     oldestPrice = t_price (history ! 0);
                     latestPrice = t_price (history ! (length history - 1));
                     marketChange = jsDivide (latestPrice - oldestPrice) oldestPrice
                 in (jsAdd priceChange marketChange, validMarkets + 1))
              else (priceChange, validMarkets))))"

text \<open>The \<^verbatim>\<open>forEach\<close> of lines 649-658: \<open>i\<close> is the slot of the first market of the list.\<close>

fun yieldLoop :: "int list \<Rightarrow> nat \<Rightarrow> Market list \<Rightarrow> real \<Rightarrow> real" where
  "yieldLoop positionNames i [] yieldValue = yieldValue"
| "yieldLoop positionNames i (market # rest) yieldValue =
     (let isYesPosition = (codeAt positionNames i = Some 1);
          price = m_price market
      in yieldLoop positionNames (Suc i) rest
           (if isYesPosition \<and> price > 0 then yieldValue + (1 / price - 1) * 100
            else if \<not> isYesPosition \<and> price < 1 then yieldValue + (1 / (1 - price) - 1) * 100
            else yieldValue))"

text \<open>The settlement date of lines 597-600 (and 777-780).\<close>

definition settlementDateOf :: "env \<Rightarrow> real \<Rightarrow> string" where
  "settlementDateOf ev days =
     filter (\<lambda>c. c \<noteq> CHR ''-'')
       (takeWhile (\<lambda>c. c \<noteq> CHR ''T'') (toISOString ev (setDatePlus ev (now ev) days)))"

text \<open>
  \<^verbatim>\<open>calculateIndexFields\<close> (lines 588-681). The index is updated in place in the
  source; here each block of the function gives the next value of the record. The
  markets are read through the store; one random number is drawn when no market has a
  usable history.
\<close>

definition calculateIndexFields :: "env \<Rightarrow> Index \<Rightarrow> service \<Rightarrow> Index \<times> service" where
  "calculateIndexFields ev index0 s =
     (let markets = marketsOf s index0;
          daysRemaining = (case daysMatch (i_resolutionTime index0) of
                             Some ds \<Rightarrow> real (digitsToNat 10 ds) | None \<Rightarrow> 0);
          expired = (toLowerCase (i_status index0) = ''inactive'');
          index1 = index0\<lparr> i_daysRemaining := Some daysRemaining,
                           i_expired := Some expired,
                           i_settlementDate := Some (settlementDateOf ev (orZero daysRemaining)) \<rparr>;
          index2 = (if length markets > 0 then
                      (let totalPrice = foldl (\<lambda>sum market. sum + m_price market) 0 markets
                       in index1\<lparr> i_avgPrice := toFixedNumber 2 (totalPrice / real (length markets)) \<rparr>)
                    else index1);
          index3 = (if length markets > 0 then
                      (let totalVolume = foldl (\<lambda>sum market. sum + m_volume market) 0 markets
                       in index2\<lparr> i_volume := Some (toFixedNumber 2 (totalVolume / 1000000)) \<rparr>)
                    else index2);
          (index4, k) =
            (if length markets > 0 then
               (case foldl priceChangeStep (Fin 0, 0) markets of (priceChange, validMarkets) \<Rightarrow>
                  (if validMarkets > 0 then
                     (let avgPriceChange = divConst priceChange (real validMarkets)
                      in (index3\<lparr> i_priceChange24h :=
                                    Some ((if jsGe0 avgPriceChange then ''+'' else '''')
                                          @ toFixedJ ev 2 (mulConst avgPriceChange 100) @ ''%'') \<rparr>,
                          randoms s))
                   else
                     (let change = toFixed ev 2 (random ev (randoms s) * 0.1 - 0.05)
                      in (index3\<lparr> i_priceChange24h :=
                                    Some (if take 1 change = ''-'' then change @ ''%''
                                          else ''+'' @ change @ ''%'') \<rparr>,
                          randoms s + 1))))
             else (index3, randoms s));
          index5 =
            (if \<not> expired then
               (let index5a =
                      (if length markets > 0 then
                         (let yieldValue = yieldLoop (i_positionNames index4) 0 markets 0
                                           / real (length markets);
                              lossValue = yieldValue * 0.5
                          in index4\<lparr> i_yieldRange := Some (''+'' @ toFixed ev 1 yieldValue @ ''%''),
                                      i_yieldLoss := Some (''-'' @ toFixed ev 1 lossValue @ ''%'') \<rparr>)
                       else index4\<lparr> i_yieldRange := Some ''+7.5%'', i_yieldLoss := Some ''-3.2%'' \<rparr>)
                in index5a\<lparr> i_marketCap :=
                              Some (case i_volume index5a of
                                      None \<Rightarrow> 0 | Some v \<Rightarrow> if v = 0 then 0 else v * 2) \<rparr>)
             else
               (let confilmYield = (if i_confilmYield index4 = 0 then 8.5 else i_confilmYield index4)
                in index4\<lparr> i_confilmYield := confilmYield,
                            i_yieldRange := Some (''+'' @ numberToString ev confilmYield @ ''%''),
                            i_priceChange24h := Some ''+0.00%'',
                            i_volume := Some 0.05,
                            i_marketCap := Some 0.1 \<rparr>))
      in (index5, s\<lparr> randoms := k \<rparr>))"

text \<open>The fallback markets of lines 783-785, one per declared constituent, from slot \<open>i\<close>.\<close>

fun fallbackMarkets :: "env \<Rightarrow> Index \<Rightarrow> nat \<Rightarrow> string list \<Rightarrow> service \<Rightarrow> nat list \<times> service" where
  "fallbackMarkets ev index i [] s = ([], s)"
| "fallbackMarkets ev index i (marketId # rest) s =
     (case createFallbackMarket ev marketId i (length (i_makrtesIds index))
             (codeAt (i_positionNames index) i) s of
        (a, s1) \<Rightarrow>
          (case fallbackMarkets ev index (Suc i) rest s1 of
             (as, s2) \<Rightarrow> (a # as, s2)))"

text \<open>
  \<^verbatim>\<open>createFallbackIndex\<close> (lines 756-788): it throws when the id has no predefined
  definition.
\<close>

definition createFallbackIndex :: "env \<Rightarrow> string \<Rightarrow> service \<Rightarrow> (error + Index) \<times> service" where
  "createFallbackIndex ev indexId s =
     (case getPredefinedIndex indexId of
        None \<Rightarrow> (Inl (Error (''Index with ID '' @ indexId @ '' not found'')), s)
      | Some predefinedIndex \<Rightarrow>
          (let k = randoms s;
               daysRemaining = (case parseInt (i_resolutionTime predefinedIndex) of
                                  None \<Rightarrow> 3 | Some d \<Rightarrow> if d = 0 then 3 else d);
               index = predefinedIndex
                 \<lparr> i_avgPrice := 0.75 + random ev k * 0.2,
                   i_priceChange24h :=
                     Some (if random ev (k + 1) > 0.5
                           then ''+'' @ toFixed ev 2 (random ev (k + 2) * 5) @ ''%''
                           else ''-'' @ toFixed ev 2 (random ev (k + 2) * 3) @ ''%''),
                   i_yieldRange := Some (''+'' @ toFixed ev 1 (5 + random ev (k + 3) * 5) @ ''%''),
                   i_yieldLoss := Some (''-'' @ toFixed ev 1 (2 + random ev (k + 4) * 3) @ ''%''),
                   i_volume := Some (random ev (k + 5) * 10),
                   i_daysRemaining := Some daysRemaining,
                   i_expired := Some (toLowerCase (i_status predefinedIndex) = ''inactive''),
                   i_settlementDate := Some (settlementDateOf ev (orZero daysRemaining)) \<rparr>
           in (case fallbackMarkets ev index 0 (i_makrtesIds index) (s\<lparr> randoms := k + 6 \<rparr>) of
                 (markets, s1) \<Rightarrow> (Inr (index\<lparr> i_markets := Some markets \<rparr>), s1))))"

text \<open>
  One callback of \<^verbatim>\<open>index.makrtesIds.map(async (marketId, i) => ...)\<close> (lines 299-322):
  the fetched market is written in place, through its address; any failure gives a
  fallback market for the slot.
\<close>

definition marketPromise ::
  "env \<Rightarrow> sdk \<Rightarrow> Index \<Rightarrow> string \<Rightarrow> nat \<Rightarrow> service \<Rightarrow> nat \<times> service" where
  "marketPromise ev sd index marketId i s =
     (let fallback = createFallbackMarket ev marketId i (length (i_makrtesIds index))
                       (codeAt (i_positionNames index) i)
      in case getMarket ev sd ''polymarket'' marketId s of
           (Inl e, s1) \<Rightarrow> fallback s1
         | (Inr market, s1) \<Rightarrow>
             (let s2 = updateObject market
                         (\<lambda>m. m\<lparr> m_position := Some (if codeAt (i_positionNames index) i = Some 1
                                                      then ''YES'' else ''NO''),
                                 m_proportion := 1 / real (length (i_makrtesIds index)) \<rparr>) s1
              in case getMarketPriceHistory sd ''polymarket'' marketId s2 of
                   (Inl e, s3) \<Rightarrow> fallback s3
                 | (Inr priceHistory, s3) \<Rightarrow>
                     (let s4 = updateObject market (\<lambda>m. m\<lparr> m_priceHistory := Some priceHistory \<rparr>) s3
                      in case getMarketOrderbook sd ''polymarket'' marketId s4 of
                           (Inl e, s5) \<Rightarrow> fallback s5
                         | (Inr ob, s5) \<Rightarrow>
                             (market, updateObject market (\<lambda>m. m\<lparr> m_orderbook := Some ob \<rparr>) s5))))"

text \<open>
  \<^verbatim>\<open>Promise.all(marketPromises)\<close> (lines 299-325). The callbacks run concurrently: each
  one goes on when the provider settles the request it awaits, so the order in which
  they reach their end, and the \<^verbatim>\<open>catch\<close> block where the random numbers of a fallback
  market are drawn, is decided by the provider's timing and not by the slot. The model
  runs each callback as one step, in the order of their \<open>completionRank\<close> (equal ranks in
  slot order), and returns the results in slot order, as \<^verbatim>\<open>Promise.all\<close> does. The market
  ids of a predefined index are distinct, so two callbacks of one call share no cache key
  and no object: whatever the interleaving at the \<^verbatim>\<open>await\<close>s, the caches and the objects
  (up to their addresses) are those of the run in which each callback is one step, and
  the random numbers are drawn in the order in which the \<^verbatim>\<open>catch\<close> blocks are reached.
\<close>

definition completionOrder :: "env \<Rightarrow> nat \<Rightarrow> nat list" where
  "completionOrder ev n = sort_key (completionRank ev) [0 ..< n]"

text \<open>The callbacks of the given slots, one after the other; each result with its slot.\<close>

fun runCallbacks ::
  "env \<Rightarrow> sdk \<Rightarrow> Index \<Rightarrow> nat list \<Rightarrow> service \<Rightarrow> (nat \<times> nat) list \<times> service" where
  "runCallbacks ev sd index [] s = ([], s)"
| "runCallbacks ev sd index (i # rest) s =
     (case marketPromise ev sd index (i_makrtesIds index ! i) i s of
        (a, s1) \<Rightarrow>
          (case runCallbacks ev sd index rest s1 of
             (settled, s2) \<Rightarrow> ((i, a) # settled, s2)))"

definition marketPromises :: "env \<Rightarrow> sdk \<Rightarrow> Index \<Rightarrow> service \<Rightarrow> nat list \<times> service" where
  "marketPromises ev sd index s =
     (case runCallbacks ev sd index (completionOrder ev (length (i_makrtesIds index))) s of
        (settled, s1) \<Rightarrow> (map snd (sort_key fst settled), s1))"

text \<open>The \<^verbatim>\<open>try\<close> block of \<^verbatim>\<open>getIndexWithData\<close> (lines 283-334).\<close>

definition getIndexWithData_try ::
  "env \<Rightarrow> sdk \<Rightarrow> string \<Rightarrow> service \<Rightarrow> (error + Index) \<times> service" where
  "getIndexWithData_try ev sd indexId s =
     (case cachedIndexes s indexId of
        Some cached \<Rightarrow> (Inr cached, s)
      | None \<Rightarrow>
          (case getPredefinedIndex indexId of
             None \<Rightarrow> (Inl (Error (''Index with ID '' @ indexId @ '' not found'')), s)
           | Some predefinedIndex \<Rightarrow>
               (case marketPromises ev sd predefinedIndex s of
                  (markets, s1) \<Rightarrow>
                    (case calculateIndexFields ev (predefinedIndex\<lparr> i_markets := Some markets \<rparr>) s1 of
                       (index, s2) \<Rightarrow>
                         (Inr index, s2\<lparr> cachedIndexes := (cachedIndexes s2)(indexId \<mapsto> index) \<rparr>)))))"

text \<open>
  \<^verbatim>\<open>getIndexWithData\<close> (lines 282-340): the \<^verbatim>\<open>catch\<close> block returns what
  \<^verbatim>\<open>createFallbackIndex\<close> returns, or throws what it throws.
\<close>

definition getIndexWithData ::
  "env \<Rightarrow> sdk \<Rightarrow> string \<Rightarrow> service \<Rightarrow> (error + Index) \<times> service" where
  "getIndexWithData ev sd indexId s =
     (case getIndexWithData_try ev sd indexId s of
        (Inr index, s1) \<Rightarrow> (Inr index, s1)
      | (Inl e, s1) \<Rightarrow> createFallbackIndex ev indexId s1)"

section \<open>Price \<open>&\<close> Volume Aggregator: index price history\<close>

text \<open>The trader tag \<^verbatim>\<open>`0x${Math.random().toString(16).substring(2, 10)}`\<close>.\<close>

definition traderTag :: "env \<Rightarrow> nat \<Rightarrow> string" where
  "traderTag ev k = ''0x'' @ take 8 (drop 2 (toString16 ev (random ev k)))"

text \<open>\<^verbatim>\<open>generateMockPriceHistory\<close> (lines 795-816): the loop runs for \<open>i = days, ..., 0\<close>.\<close>

definition mockPrice :: "env \<Rightarrow> real \<Rightarrow> nat \<Rightarrow> real" where
  "mockPrice ev price k =
     (let change = random ev k * 0.06 - 0.03
      in max 0.5 (min 0.99 (price + price * change)))"

definition mockRecord :: "env \<Rightarrow> real \<Rightarrow> nat \<Rightarrow> real \<Rightarrow> nat \<Rightarrow> TradeRecord" where
  "mockRecord ev nowSeconds i price k =
     \<lparr> t_price = mockPrice ev price k,
       t_volumeBase = random ev (k + 1) * 10000,
       t_timestamp = nowSeconds - real i * 86400,
       t_trader = Some (traderTag ev (k + 2)) \<rparr>"

fun mockLoop ::
  "env \<Rightarrow> real \<Rightarrow> nat \<Rightarrow> real \<Rightarrow> nat \<Rightarrow> TradeRecord list \<Rightarrow> TradeRecord list \<times> nat" where
  "mockLoop ev nowSeconds 0 price k mockData =
     (mockData @ [mockRecord ev nowSeconds 0 price k], k + 3)"
| "mockLoop ev nowSeconds (Suc i) price k mockData =
     mockLoop ev nowSeconds i (mockPrice ev price k) (k + 3)
       (mockData @ [mockRecord ev nowSeconds (Suc i) price k])"

definition generateMockPriceHistory :: "env \<Rightarrow> nat \<Rightarrow> service \<Rightarrow> TradeRecord list \<times> service" where
  "generateMockPriceHistory ev days s =
     (let nowSeconds = real_of_int \<lfloor>now ev / 1000\<rfloor>;
          price = 0.75 + random ev (randoms s) * 0.2
      in case mockLoop ev nowSeconds days price (randoms s + 1) [] of
           (mockData, k) \<Rightarrow> (mockData, s\<lparr> randoms := k \<rparr>))"

text \<open>
  \<^verbatim>\<open>getIndexPriceHistory\<close> (lines 347-389). The inner \<^verbatim>\<open>forEach\<close> pushes a tagged copy
  of each record (the \<^verbatim>\<open>typeof\<close> tests hold for every record of the type); the outer
  one visits the markets with their slot \<open>i\<close>.
\<close>

fun pushRecords :: "env \<Rightarrow> TradeRecord list \<Rightarrow> TradeRecord list \<times> nat \<Rightarrow> TradeRecord list \<times> nat" where
  "pushRecords ev [] acc = acc"
| "pushRecords ev (record # rest) (allRecords, k) =
     pushRecords ev rest
       (allRecords @ [\<lparr> t_price = t_price record,
                         t_volumeBase = orZero (t_volumeBase record),
                         t_timestamp = t_timestamp record,
                         t_trader = Some (traderTag ev k) \<rparr>],
        k + 1)"

fun collectRecords ::
  "env \<Rightarrow> int list \<Rightarrow> nat \<Rightarrow> Market list \<Rightarrow> TradeRecord list \<times> nat \<Rightarrow> TradeRecord list \<times> nat" where
  "collectRecords ev positionNames i [] acc = acc"
| "collectRecords ev positionNames i (market # rest) acc =
     collectRecords ev positionNames (Suc i) rest
       (case m_priceHistory market of
          None \<Rightarrow> acc
        | Some ph \<Rightarrow>
            (if length ph > 0 \<and> length (ph ! 0) > 0 then
               (let positionIndex = (if codeAt positionNames i = Some 1 then 0 else 1 :: nat);
                    positionHistory = (if positionIndex < length ph then ph ! positionIndex else ph ! 0)
                in pushRecords ev positionHistory acc)
             else acc))"

definition getIndexPriceHistory :: "env \<Rightarrow> Index \<Rightarrow> service \<Rightarrow> TradeRecord list \<times> service" where
  "getIndexPriceHistory ev index s =
     (if i_markets index = None \<or> length (marketsOf s index) = 0 then generateMockPriceHistory ev 30 s
      else
        (case collectRecords ev (i_positionNames index) 0 (marketsOf s index) ([], randoms s) of
           (allRecords, k) \<Rightarrow>
             (if length allRecords = 0 then generateMockPriceHistory ev 30 (s\<lparr> randoms := k \<rparr>)
              else (sort_key t_timestamp allRecords, s\<lparr> randoms := k \<rparr>))))"

text \<open>
  Sample providers for the worked examples: one that answers every request, the same
  provider later, when one more trade has happened in every market, one that knows a
  single market and has no price history, and one that is down. \<open>lateEnv\<close> is an
  environment in which the callback of slot 0 ends last and the random numbers differ.
\<close>

definition sampleExchange :: "string \<Rightarrow> Exchange" where
  "sampleExchange marketId =
     \<lparr> e_id = marketId, e_name = ''Question '' @ marketId, e_groupItemTitle = None,
       e_end = ''2023-11-15T00:00:00Z'', e_icon = None,
       e_position_tokens = [\<lparr> pt_name = ''Yes'', pt_price = Some (4 / 5) \<rparr>,
                            \<lparr> pt_name = ''No'', pt_price = Some (1 / 5) \<rparr>],
       e_description = None \<rparr>"

definition sampleSdk :: sdk where
  "sampleSdk = \<lparr> getExchange = (\<lambda>provider marketId. Inr (sampleExchange marketId)),
                 getPriceHistory = (\<lambda>provider marketId.
                    Inr [[trade 100 (1 / 2) 5], [trade 150 (1 / 2) 5]]),
                 getOrderbook = (\<lambda>provider marketId. Inr []) \<rparr>"

definition laterSdk :: sdk where
  "laterSdk = \<lparr> getExchange = (\<lambda>provider marketId. Inr (sampleExchange marketId)),
                getPriceHistory = (\<lambda>provider marketId.
                    Inr [[trade 100 (1 / 2) 5, trade 200 (3 / 5) 4], [trade 150 (1 / 2) 5]]),
                getOrderbook = (\<lambda>provider marketId. Inr []) \<rparr>"

definition partialSdk :: sdk where
  "partialSdk = \<lparr> getExchange = (\<lambda>provider marketId.
                     if marketId = ''544924'' then Inr (sampleExchange marketId)
                     else Inl (Error ''not found'')),
                  getPriceHistory = (\<lambda>provider marketId. Inl (Error ''network'')),
                  getOrderbook = (\<lambda>provider marketId. Inl (Error ''network'')) \<rparr>"

definition lateEnv :: env where
  "lateEnv = sampleEnv\<lparr> random := (\<lambda>n. real (n mod 7 + 1) / 8),
                        completionRank := (\<lambda>i. if i = 0 then 4 else i) \<rparr>"

definition downSdk :: sdk where
  "downSdk = \<lparr> getExchange = (\<lambda>provider marketId. Inl (Error ''network'')),
               getPriceHistory = (\<lambda>provider marketId. Inl (Error ''network'')),
               getOrderbook = (\<lambda>provider marketId. Inl (Error ''network'')) \<rparr>"

section \<open>What a resolution may change\<close>

text \<open>
  \<open>cacheInv\<close>: every reference held by the market cache is an allocated object.
  \<open>frame K s s'\<close>: from \<open>s\<close> to \<open>s'\<close> the store only grew, a reference in the market
  cache is one that was there or a new object, the objects of \<open>s\<close> that the market cache
  of \<open>s\<close> does not hold under a key of \<open>K\<close> are unchanged, and the index and
  price-history caches are unchanged.
\<close>

definition cacheInv :: "service \<Rightarrow> bool" where
  "cacheInv s = (\<forall>key a. cachedMarkets s key = Some a \<longrightarrow> a < length (objects s))"

definition frame :: "string set \<Rightarrow> service \<Rightarrow> service \<Rightarrow> bool" where
  "frame K s s' =
     (length (objects s) \<le> length (objects s')
      \<and> (\<forall>key a. cachedMarkets s' key = Some a \<longrightarrow>
            cachedMarkets s key = Some a \<or> (length (objects s) \<le> a \<and> a < length (objects s')))
      \<and> (\<forall>a < length (objects s).
            (\<forall>key \<in> K. cachedMarkets s key \<noteq> Some a) \<longrightarrow> objects s' ! a = objects s ! a)
      \<and> cachedIndexes s' = cachedIndexes s
      \<and> cachedPriceHistories s' = cachedPriceHistories s)"

text \<open>The constituent ids that the predefined definition of an index declares.\<close>

definition constituents :: "string \<Rightarrow> string list" where
  "constituents indexId = (case getPredefinedIndex indexId of None \<Rightarrow> [] | Some d \<Rightarrow> i_makrtesIds d)"

text \<open>Sample states: after one resolution, and after a second one of another index.\<close>

definition afterFirst :: service where
  "afterFirst = snd (getIndexWithData sampleEnv sampleSdk ''reliable-forecast'' newService)"

definition afterSecond :: service where
  "afterSecond = snd (getIndexWithData sampleEnv laterSdk ''90-percent-index'' afterFirst)"

definition afterOther :: service where
  "afterOther = snd (getIndexWithData sampleEnv laterSdk ''non-viable-candidate'' afterFirst)"

text \<open>The volumes a caller reads through a memoized index.\<close>

definition observedVolumes :: "service \<Rightarrow> string \<Rightarrow> real list option" where
  "observedVolumes s indexId = map_option (\<lambda>index. map m_volume (marketsOf s index)) (cachedIndexes s indexId)"

section \<open>The combined series of an index\<close>

text \<open>
  What one constituent contributes to the combined series in the code: nothing unless its
  price history is present and the array at index 0 has a trade; otherwise the array of
  its position side (code 1: index 0, any other code: index 1, or index 0 when the
  history has no index 1).
\<close>

definition selectedSide :: "int list \<Rightarrow> nat \<Rightarrow> Market \<Rightarrow> TradeRecord list" where
  "selectedSide positionNames i market =
     (case m_priceHistory market of
        None \<Rightarrow> []
      | Some ph \<Rightarrow>
          (if ph = [] \<or> ph ! 0 = [] then []
           else if codeAt positionNames i = Some 1 then ph ! 0
           else if 1 < length ph then ph ! 1
           else ph ! 0))"

fun combinedSeries :: "int list \<Rightarrow> nat \<Rightarrow> Market list \<Rightarrow> TradeRecord list" where
  "combinedSeries positionNames i [] = []"
| "combinedSeries positionNames i (market # rest) =
     selectedSide positionNames i market @ combinedSeries positionNames (Suc i) rest"

text \<open>The same without the test on index 0, as the specification words it.\<close>

definition claimedSide :: "int list \<Rightarrow> nat \<Rightarrow> Market \<Rightarrow> TradeRecord list" where
  "claimedSide positionNames i market =
     (case m_priceHistory market of
        None \<Rightarrow> []
      | Some ph \<Rightarrow>
          (if ph = [] then []
           else if codeAt positionNames i = Some 1 then ph ! 0
           else if 1 < length ph then ph ! 1
           else ph ! 0))"

fun claimedSeries :: "int list \<Rightarrow> nat \<Rightarrow> Market list \<Rightarrow> TradeRecord list" where
  "claimedSeries positionNames i [] = []"
| "claimedSeries positionNames i (market # rest) =
     claimedSide positionNames i market @ claimedSeries positionNames (Suc i) rest"

text \<open>The synthetic trader tags: the \<open>j\<close>-th record pushed gets the \<open>j\<close>-th random number.\<close>

fun tagFrom :: "env \<Rightarrow> nat \<Rightarrow> TradeRecord list \<Rightarrow> TradeRecord list" where
  "tagFrom ev k [] = []"
| "tagFrom ev k (r # rs) = r\<lparr> t_trader := Some (traderTag ev k) \<rparr> # tagFrom ev (Suc k) rs"

text \<open>
  Sample indexes over a store of four markets: market 0 (held on the YES side) and
  market 1 (held on the NO side) are those of the specification's scenario B; market 2 has
  trades on the NO side only; market 3 has a price of \<open>10^-22\<close>.
\<close>

definition sampleMarket :: "string \<Rightarrow> real \<Rightarrow> TradeRecord list list \<Rightarrow> Market" where
  "sampleMarket ident price ph =
     \<lparr> m_id = ident, m_name = ''Question '' @ ident, m_proportion = 1 / 2, m_price = price,
       m_category = ''General'', m_remainingHours = Fin 0, m_icon = '''',
       m_priceHistory = Some ph, m_orderbook = Some [], m_volume = 0,
       m_end = ''2023-11-15T00:00:00Z'', m_position = None, m_description = None \<rparr>"

definition scenarioService :: service where
  "scenarioService =
     newService\<lparr> objects :=
       [ sampleMarket ''A'' (4 / 5) [[trade 1 (1 / 2) 0, trade 3 (3 / 5) 0], []],
         sampleMarket ''B'' (3 / 10) [[trade 2 (2 / 5) 0], [trade 4 (9 / 20) 0]],
         sampleMarket ''C'' (1 / 2) [[], [trade 4 (9 / 20) 0]],
         sampleMarket ''D'' (1 / 10 ^ 22) [] ] \<rparr>"

definition scenarioIndex :: Index where
  "scenarioIndex =
     (mkIndex ''scenario'' ''Scenario'' [''A'', ''B''] [1, 2] ''Active'' ''0x0'' ''3 days'')
       \<lparr> i_markets := Some [0, 1] \<rparr>"

definition noSideIndex :: Index where
  "noSideIndex =
     (mkIndex ''no-side'' ''NO side only'' [''C''] [2] ''Active'' ''0x0'' ''3 days'')
       \<lparr> i_markets := Some [2] \<rparr>"

section \<open>The yield of an index, as the specification words it\<close>

text \<open>
  The contribution of the constituent in slot \<open>j\<close>: \<open>(1/price - 1) * 100\<close> on the YES side
  (position code 1) when the price is positive, \<open>(1/(1 - price) - 1) * 100\<close> on the NO side
  when the price is below 1, nothing otherwise. The yield is the sum of the contributions
  divided by the number of constituents.
\<close>

definition yieldContribution :: "int list \<Rightarrow> nat \<Rightarrow> Market \<Rightarrow> real" where
  "yieldContribution positionNames j market =
     (if codeAt positionNames j = Some 1
      then (if m_price market > 0 then (1 / m_price market - 1) * 100 else 0)
      else (if m_price market < 1 then (1 / (1 - m_price market) - 1) * 100 else 0))"

definition yieldValueSpec :: "int list \<Rightarrow> Market list \<Rightarrow> real" where
  "yieldValueSpec positionNames markets =
     sum_list (map (\<lambda>j. yieldContribution positionNames j (markets ! j)) [0 ..< length markets])
       / real (length markets)"

text \<open>
  An active index whose only constituent is the market with the price of \<open>10^-22\<close>, held
  on the YES side, and an inactive index over the sample store.
\<close>

definition tinyPriceIndex :: Index where
  "tinyPriceIndex =
     (mkIndex ''tiny'' ''Tiny price'' [''D''] [1] ''Active'' ''0x0'' ''3 days'')
       \<lparr> i_markets := Some [3] \<rparr>"

definition inactiveIndex :: Index where
  "inactiveIndex =
     (mkIndex ''settled'' ''Settled'' [''A'', ''B''] [1, 2] ''Inactive'' ''0x0'' ''4 days'')
       \<lparr> i_markets := Some [0, 1] \<rparr>"

text \<open>
  A number written with one decimal: an optional minus sign, at least one digit, a decimal
  point and one digit.
\<close>

definition oneDecimal :: "string \<Rightarrow> bool" where
  "oneDecimal s =
     (let body = (if take 1 s = ''-'' then drop 1 s else s)
      in length body \<ge> 3
         \<and> list_all isDigit (take (length body - 2) body)
         \<and> body ! (length body - 2) = CHR ''.''
         \<and> isDigit (last body))"

section \<open>Properties\<close>

subsection \<open>Remaining hours\<close>

text \<open>
  For an end date that parses, the result is \<open>max 0 ((end - now) / 3600000)\<close>, the
  milliseconds converted to hours.
\<close>

lemma calculateRemainingHours_parsed:
  "dateParse ev s = Some t \<Longrightarrow>
   calculateRemainingHours ev s = Fin (max 0 ((t - now ev) / 3600000))"
  by (simp add: calculateRemainingHours_def)

text \<open>
  C3: the claim says that an unparseable end date gives 0. In the code an unparseable end
  date is an invalid date, the difference is NaN and so is the result: the \<^verbatim>\<open>catch\<close>
  branch that returns 0 is never taken.
\<close>

theorem calculateRemainingHours_unparseable:
  "dateParse ev s = None \<Longrightarrow> calculateRemainingHours ev s = NaN"
  by (simp add: calculateRemainingHours_def)

theorem calculateRemainingHours_unparseable_witness:
  "dateParse sampleEnv ''not a date'' = None \<and>
   calculateRemainingHours sampleEnv ''not a date'' = NaN \<and>
   calculateRemainingHours sampleEnv ''not a date'' \<noteq> Fin 0"
  using calculateRemainingHours_unparseable [of sampleEnv "''not a date''"]
  by (simp add: sampleEnv_def)

subsection \<open>Candles\<close>

lemma foldl_max_Max: "foldl max (x::real) xs = Max (set (x # xs))"
proof (induction xs arbitrary: x)
  case Nil
  show ?case by simp
next
  case (Cons a xs)
  have "Max (insert (max x a) (set xs)) = max x (Max (insert a (set xs)))"
    by (cases "set xs = {}") (simp_all add: max.assoc)
  with Cons show ?case by simp
qed

lemma foldl_min_Min: "foldl min (x::real) xs = Min (set (x # xs))"
proof (induction xs arbitrary: x)
  case Nil
  show ?case by simp
next
  case (Cons a xs)
  have "Min (insert (min x a) (set xs)) = min x (Min (insert a (set xs)))"
    by (cases "set xs = {}") (simp_all add: min.assoc)
  with Cons show ?case by simp
qed

lemma foldl_volume_sum:
  "foldl (\<lambda>sum x. sum + orZero (t_volumeBase x)) a xs = a + sum_list (map t_volumeBase xs)"
  by (induction xs arbitrary: a) (simp_all add: orZero_def)

lemma candleOf_bucket:
  "candleOf start r rs =
     \<lparr> c_time = start / 1000, c_open = t_price (hd (r # rs)),
       c_high = Max (t_price ` set (r # rs)), c_low = Min (t_price ` set (r # rs)),
       c_close = t_price (last (r # rs)), c_volume = sum_list (map t_volumeBase (r # rs)) \<rparr>"
  unfolding candleOf_def foldl_max_Max foldl_min_Min foldl_volume_sum
  by simp

lemma candleLoop_steps:
  assumes w: "0 < w"
  shows "k \<le> N \<Longrightarrow> N = nat \<lfloor>(endT - first) / w\<rfloor> + 1 \<Longrightarrow> first \<le> endT \<Longrightarrow>
         candleLoop srt w endT (first + real k * w) acc
           = Some (acc @ concat (map (stepCandles srt w first) [k ..< N]))"
proof (induction "N - k" arbitrary: k acc)
  case 0
  then have kN: "k = N" by simp
  have "(endT - first) / w < real_of_int (\<lfloor>(endT - first) / w\<rfloor> + 1)"
    by linarith
  also have "\<dots> = real N"
    using 0 w by (simp add: zero_le_divide_iff)
  finally have "endT - first < real N * w"
    using w by (simp add: pos_divide_less_eq)
  then have "\<not> first + real k * w \<le> endT" using kN by simp
  then show ?case using kN by (subst candleLoop.simps) simp
next
  case (Suc d)
  then have kN: "k < N" by simp
  have nonneg: "0 \<le> (endT - first) / w" using Suc w by simp
  have "real k \<le> real_of_int \<lfloor>(endT - first) / w\<rfloor>"
    using kN Suc.prems(2) nonneg by (simp add: le_nat_floor nat_less_iff of_nat_less_iff) linarith
  also have "\<dots> \<le> (endT - first) / w" by simp
  finally have "real k * w \<le> endT - first"
    using w by (simp add: pos_le_divide_eq)
  then have le: "first + real k * w \<le> endT" by simp
  have next_time: "first + real k * w + w = first + real (Suc k) * w"
    by (simp add: algebra_simps)
  have IH: "candleLoop srt w endT (first + real (Suc k) * w) acc'
           = Some (acc' @ concat (map (stepCandles srt w first) [Suc k ..< N]))" for acc'
    using Suc.hyps(1)[of "Suc k" acc'] Suc.hyps(2) Suc.prems kN by simp
  have upt: "[k ..< N] = k # [Suc k ..< N]" using kN by (simp add: upt_conv_Cons)
  show ?case
    apply (subst candleLoop.simps)
    apply (simp only: le if_True Let_def next_time IH upt)
    apply (simp add: stepCandles_def next_time split: list.split)
    done
qed


lemma steps_eq_spec:
  "concat (map (stepCandles (sort_key t_timestamp xs) (ih * 3600000)
                  (t_timestamp (hd (sort_key t_timestamp xs)) * 1000)) ks)
   = map (bucketCandle xs ih) (filter (\<lambda>k. bucketOf xs ih k \<noteq> []) ks)"
proof (induction ks)
  case Nil
  show ?case by simp
next
  case (Cons k ks)
  have b: "filter (\<lambda>r. t_timestamp (hd (sort_key t_timestamp xs)) * 1000 + real k * (ih * 3600000) \<le> t_timestamp r * 1000
                       \<and> t_timestamp r * 1000 < t_timestamp (hd (sort_key t_timestamp xs)) * 1000 + real k * (ih * 3600000) + ih * 3600000)
              (sort_key t_timestamp xs) = bucketOf xs ih k"
    by (simp add: bucketOf_def Let_def algebra_simps)
  show ?case
  proof (cases "bucketOf xs ih k")
    case Nil
    then show ?thesis using Cons by (simp add: stepCandles_def b)
  next
    case (Cons r rs)
    then show ?thesis using Cons.IH
      by (simp add: stepCandles_def b candleOf_bucket bucketCandle_def Let_def)
  qed
qed


lemma sort_nonempty: "xs \<noteq> [] \<Longrightarrow> sort_key f xs \<noteq> []"
  by (metis length_sort length_0_conv)

lemma sorted_first_le_last:
  assumes "xs \<noteq> []"
  shows "t_timestamp (hd (sort_key t_timestamp xs)) \<le> t_timestamp (last (sort_key t_timestamp xs))"
proof -
  let ?ys = "map t_timestamp (sort_key t_timestamp xs)"
  have ne: "?ys \<noteq> []" using assms sort_nonempty by simp
  have srt: "sorted ?ys" by simp
  have "hd ?ys \<le> last ?ys"
  proof (cases ?ys)
    case Nil
    with ne show ?thesis by simp
  next
    case (Cons y ys)
    have "last (y # ys) \<in> set (y # ys)" by (rule last_in_set) simp
    with srt Cons show ?thesis by auto
  qed
  then show ?thesis using ne by (simp add: hd_map last_map)
qed


lemma generateCandleData_eq:
  assumes "0 < ih" "h ! a \<noteq> []"
  shows "generateCandleData h a ih
         = Some (candlesSpec (h ! a) ih, h @ [sort_key t_timestamp (h ! a)])"
proof -
  let ?xs = "h ! a"
  let ?s = "sort_key t_timestamp ?xs"
  let ?w = "ih * 3600000"
  let ?first = "t_timestamp (hd ?s) * 1000"
  let ?endT = "t_timestamp (last ?s) * 1000"
  have ne: "?s \<noteq> []" using assms(2) by (rule sort_nonempty)
  have h2: "sortByTimestamp (h @ [?xs]) (length h) = h @ [?s]"
    by (simp add: sortByTimestamp_def)
  have w: "0 < ?w" using assms(1) by simp
  have le: "?first \<le> ?endT" using sorted_first_le_last [OF assms(2)] by simp
  have "candleLoop ?s ?w ?endT (?first + real 0 * ?w) []
          = Some ([] @ concat (map (stepCandles ?s ?w ?first) [0 ..< bucketCount ?xs ih]))"
  proof (rule candleLoop_steps [OF w])
    show "0 \<le> bucketCount ?xs ih" by simp
    show "bucketCount ?xs ih = nat \<lfloor>(?endT - ?first) / ?w\<rfloor> + 1"
      by (simp only: bucketCount_def Let_def)
    show "?first \<le> ?endT" by (rule le)
  qed
  then have loop: "candleLoop ?s ?w ?endT ?first [] = Some (candlesSpec ?xs ih)"
    by (simp only: steps_eq_spec candlesSpec_def append_Nil of_nat_0 mult_zero_left add_0_right)
  have nth0: "?s ! 0 = hd ?s" using ne by (simp add: hd_conv_nth)
  have nthl: "?s ! (length ?s - 1) = last ?s" using ne by (simp add: last_conv_nth)
  have iv: "ih * 60 * 60 * 1000 = ?w" by simp
  show ?thesis
    unfolding generateCandleData_def spread_def Let_def prod.case h2 iv
    using assms(2) nth0 nthl loop by simp
qed




text \<open>
  C10: \<^verbatim>\<open>generateCandleData\<close> sorts a copy. When it returns (it does for a positive
  width and for an empty series), every array that existed before the call, the caller's
  series among them, has the length, the contents and the order it had.
\<close>

theorem generateCandleData_frame:
  assumes "0 < intervalHours \<or> h ! tradeRecords = []"
  shows "\<exists>candles h'. generateCandleData h tradeRecords intervalHours = Some (candles, h')
           \<and> take (length h) h' = h"
proof (cases "h ! tradeRecords = []")
  case True
  then show ?thesis by (simp add: generateCandleData_def)
next
  case False
  with assms have "0 < intervalHours" by simp
  from generateCandleData_eq [OF this False] show ?thesis by simp
qed
theorem generateCandleData_frame_witness:
  "((0::real) < 4 \<or> [unsortedTrades] ! 0 = [])
   \<and> (\<exists>candles h'. generateCandleData [unsortedTrades] 0 4 = Some (candles, h')
          \<and> take 1 h' = [unsortedTrades])"
  using generateCandleData_frame [of 4 "[unsortedTrades]" 0]
  by simp

subsection \<open>The caches and the store\<close>

lemma getMarketPriceHistory_cache:
  "cachedPriceHistories (snd (getMarketPriceHistory sd provider marketId s)) = cachedPriceHistories s"
  by (simp add: getMarketPriceHistory_def Let_def split: option.split sum.split error.split)

lemma getMarket_memoizes:
  "getMarket ev sd provider marketId s = (Inr a, s') \<Longrightarrow>
   cachedMarkets s' (cacheKey provider marketId) = Some a"
  by (auto simp: getMarket_def Let_def split: option.splits sum.splits error.splits)

lemma getMarketOrderbook_memoizes:
  "getMarketOrderbook sd provider marketId s = (Inr ob, s') \<Longrightarrow>
   cachedOrderbooks s' (cacheKey provider marketId) = Some ob"
  by (auto simp: getMarketOrderbook_def split: option.splits sum.splits error.splits)

lemma frame_refl: "frame K s s"
  by (simp add: frame_def)

lemma frame_trans:
  assumes "frame K s s1" "frame K s1 s2"
  shows "frame K s s2"
  unfolding frame_def
proof (intro conjI allI impI)
  show "length (objects s) \<le> length (objects s2)"
    using assms by (simp add: frame_def)
next
  fix key a assume "cachedMarkets s2 key = Some a"
  then have "cachedMarkets s1 key = Some a \<or> (length (objects s1) \<le> a \<and> a < length (objects s2))"
    using assms(2) by (simp add: frame_def)
  moreover have "cachedMarkets s1 key = Some a \<Longrightarrow>
      cachedMarkets s key = Some a \<or> (length (objects s) \<le> a \<and> a < length (objects s1))"
    using assms(1) by (simp add: frame_def)
  moreover have "length (objects s) \<le> length (objects s1)" "length (objects s1) \<le> length (objects s2)"
    using assms by (simp_all add: frame_def)
  ultimately show "cachedMarkets s key = Some a \<or> (length (objects s) \<le> a \<and> a < length (objects s2))"
    by auto
next
  fix a assume a: "a < length (objects s)" and k: "\<forall>key\<in>K. cachedMarkets s key \<noteq> Some a"
  have 1: "objects s1 ! a = objects s ! a" using assms(1) a k by (simp add: frame_def)
  have len: "length (objects s) \<le> length (objects s1)" using assms(1) by (simp add: frame_def)
  have "\<forall>key\<in>K. cachedMarkets s1 key \<noteq> Some a"
  proof
    fix key assume "key \<in> K"
    show "cachedMarkets s1 key \<noteq> Some a"
    proof
      assume "cachedMarkets s1 key = Some a"
      then have "cachedMarkets s key = Some a \<or> length (objects s) \<le> a"
        using assms(1) by (auto simp: frame_def)
      then show False using k a \<open>key \<in> K\<close> by auto
    qed
  qed
  then have "objects s2 ! a = objects s1 ! a" using assms(2) a len by (simp add: frame_def)
  with 1 show "objects s2 ! a = objects s ! a" by simp
next
  show "cachedIndexes s2 = cachedIndexes s" using assms by (simp add: frame_def)
  show "cachedPriceHistories s2 = cachedPriceHistories s" using assms by (simp add: frame_def)
qed

lemma frame_cacheInv: "frame K s s' \<Longrightarrow> cacheInv s \<Longrightarrow> cacheInv s'"
  unfolding frame_def cacheInv_def
  by (metis (no_types, lifting) less_le_trans)

lemma frame_mono: "frame K s s' \<Longrightarrow> K \<subseteq> K' \<Longrightarrow> frame K' s s'"
  unfolding frame_def by blast

lemma getMarket_frame:
  "getMarket ev sd provider marketId s = (r, s') \<Longrightarrow> frame K s s'"
  by (auto simp: getMarket_def Let_def frame_def nth_append
           split: option.splits sum.splits error.splits if_splits)

lemma getMarket_result:
  "getMarket ev sd provider marketId s = (Inr a, s') \<Longrightarrow>
   cachedMarkets s (cacheKey provider marketId) = Some a \<or> (length (objects s) \<le> a \<and> a < length (objects s'))"
  by (auto simp: getMarket_def Let_def split: option.splits sum.splits error.splits)

lemma updateObject_frame:
  "cachedMarkets s key = Some a \<Longrightarrow> key \<in> K \<Longrightarrow> frame K s (updateObject a f s)"
  by (auto simp: frame_def updateObject_def)

lemma updateObject_simps:
  "cachedMarkets (updateObject a f s) = cachedMarkets s"
  "cachedPriceHistories (updateObject a f s) = cachedPriceHistories s"
  "cachedOrderbooks (updateObject a f s) = cachedOrderbooks s"
  "cachedIndexes (updateObject a f s) = cachedIndexes s"
  "randoms (updateObject a f s) = randoms s"
  "length (objects (updateObject a f s)) = length (objects s)"
  by (simp_all add: updateObject_def)

lemma getMarketPriceHistory_frame:
  "getMarketPriceHistory sd provider marketId s = (r, s') \<Longrightarrow> cacheKey provider marketId \<in> K
   \<Longrightarrow> frame K s s'"
  by (auto simp: getMarketPriceHistory_def Let_def frame_def
           split: option.splits sum.splits error.splits if_splits)

lemma getMarketPriceHistory_keeps:
  "getMarketPriceHistory sd provider marketId s = (r, s') \<Longrightarrow>
   cachedMarkets s' = cachedMarkets s \<and> randoms s' = randoms s"
  by (auto simp: getMarketPriceHistory_def Let_def fun_upd_idem
           split: option.splits sum.splits error.splits if_splits)

lemma getMarketOrderbook_frame:
  "getMarketOrderbook sd provider marketId s = (r, s') \<Longrightarrow> frame K s s'"
  by (auto simp: getMarketOrderbook_def frame_def split: option.splits sum.splits error.splits)

lemma getMarketOrderbook_keeps:
  "getMarketOrderbook sd provider marketId s = (r, s') \<Longrightarrow>
   cachedMarkets s' = cachedMarkets s \<and> randoms s' = randoms s"
  by (auto simp: getMarketOrderbook_def split: option.splits sum.splits error.splits)

lemma createFallbackMarket_frame:
  "createFallbackMarket ev marketId i n code s = (a, s') \<Longrightarrow> frame K s s'"
  by (auto simp: createFallbackMarket_def frame_def nth_append)

lemma marketPromise_frame:
  assumes "marketPromise ev sd index marketId i s = (a, s')"
      and K: "cacheKey ''polymarket'' marketId \<in> K"
  shows "frame K s s'"
proof (cases "getMarket ev sd ''polymarket'' marketId s")
  case (Pair r s1)
  have f1: "frame K s s1" using Pair by (rule getMarket_frame)
  show ?thesis
  proof (cases r)
    case (Inl e)
    then have "createFallbackMarket ev marketId i (length (i_makrtesIds index))
                 (codeAt (i_positionNames index) i) s1 = (a, s')"
      using assms(1) Pair by (simp add: marketPromise_def)
    then show ?thesis using f1 createFallbackMarket_frame frame_trans by blast
  next
    case (Inr market)
    let ?s2 = "updateObject market
                 (\<lambda>m. m\<lparr> m_position := Some (if codeAt (i_positionNames index) i = Some 1
                                              then ''YES'' else ''NO''),
                         m_proportion := 1 / real (length (i_makrtesIds index)) \<rparr>) s1"
    have c1: "cachedMarkets s1 (cacheKey ''polymarket'' marketId) = Some market"
      using Pair Inr getMarket_memoizes by simp
    have f2: "frame K s ?s2"
      using f1 updateObject_frame [OF c1 K] frame_trans by blast
    show ?thesis
    proof (cases "getMarketPriceHistory sd ''polymarket'' marketId ?s2")
      case (Pair r3 s3)
      note ph = Pair
      have f3: "frame K s s3"
        using f2 getMarketPriceHistory_frame [OF ph K] frame_trans by blast
      have c3: "cachedMarkets s3 (cacheKey ''polymarket'' marketId) = Some market"
        using getMarketPriceHistory_keeps [OF ph] c1 by (simp add: updateObject_simps)
      show ?thesis
      proof (cases r3)
        case (Inl e)
        then have "createFallbackMarket ev marketId i (length (i_makrtesIds index))
                 (codeAt (i_positionNames index) i) s3 = (a, s')"
          using assms(1) \<open>getMarket ev sd ''polymarket'' marketId s = (r, s1)\<close> \<open>r = Inr market\<close> ph
          by (simp add: marketPromise_def Let_def)
        then show ?thesis using f3 createFallbackMarket_frame frame_trans by blast
      next
        case (Inr priceHistory)
        let ?s4 = "updateObject market (\<lambda>m. m\<lparr> m_priceHistory := Some priceHistory \<rparr>) s3"
        have f4: "frame K s ?s4"
          using f3 updateObject_frame [OF c3 K] frame_trans by blast
        show ?thesis
        proof (cases "getMarketOrderbook sd ''polymarket'' marketId ?s4")
          case (Pair r5 s5)
          note ob = Pair
          have f5: "frame K s s5"
            using f4 getMarketOrderbook_frame [OF ob] frame_trans by blast
          have c5: "cachedMarkets s5 (cacheKey ''polymarket'' marketId) = Some market"
            using getMarketOrderbook_keeps [OF ob] c3 by (simp add: updateObject_simps)
          show ?thesis
          proof (cases r5)
            case (Inl e)
            then have "createFallbackMarket ev marketId i (length (i_makrtesIds index))
                 (codeAt (i_positionNames index) i) s5 = (a, s')"
              using assms(1) \<open>getMarket ev sd ''polymarket'' marketId s = (r, s1)\<close> \<open>r = Inr market\<close>
                    ph \<open>r3 = Inr priceHistory\<close> ob
              by (simp add: marketPromise_def Let_def)
            then show ?thesis using f5 createFallbackMarket_frame frame_trans by blast
          next
            case (Inr book)
            then have "s' = updateObject market (\<lambda>m. m\<lparr> m_orderbook := Some book \<rparr>) s5"
              using assms(1) \<open>getMarket ev sd ''polymarket'' marketId s = (r, s1)\<close> \<open>r = Inr market\<close>
                    ph \<open>r3 = Inr priceHistory\<close> ob
              by (auto simp: marketPromise_def Let_def)
            then show ?thesis
              using f5 updateObject_frame [OF c5 K] frame_trans by blast
          qed
        qed
      qed
    qed
  qed
qed

lemma set_completionOrder: "set (completionOrder ev n) = {0 ..< n}"
  by (simp add: completionOrder_def)

lemma map_insort_key:
  "map f (insort_key f x xs) = insort (f x) (map f xs)"
  by (induction xs) simp_all

lemma map_sort_key: "map f (sort_key f xs) = sort (map f xs)"
  by (induction xs) (simp_all add: map_insort_key)

lemma sort_completionOrder: "sort (completionOrder ev n) = [0 ..< n]"
proof (rule sorted_distinct_set_unique)
  show "sorted (sort (completionOrder ev n))" by simp
  show "distinct (sort (completionOrder ev n))" by (simp add: completionOrder_def)
  show "sorted [0 ..< n]" by simp
  show "distinct [0 ..< n]" by simp
  show "set (sort (completionOrder ev n)) = set [0 ..< n]" by (simp add: set_completionOrder)
qed

lemma runCallbacks_slots:
  "runCallbacks ev sd index slots s = (settled, s') \<Longrightarrow> map fst settled = slots"
  by (induction slots arbitrary: s settled s') (auto split: prod.splits)

lemma runCallbacks_frame:
  "runCallbacks ev sd index slots s = (settled, s') \<Longrightarrow>
   (\<forall>i \<in> set slots. cacheKey ''polymarket'' (i_makrtesIds index ! i) \<in> K) \<Longrightarrow> frame K s s'"
proof (induction slots arbitrary: s settled s')
  case Nil
  then show ?case by (simp add: frame_refl)
next
  case (Cons i slots)
  obtain a s1 where p: "marketPromise ev sd index (i_makrtesIds index ! i) i s = (a, s1)"
    by (cases "marketPromise ev sd index (i_makrtesIds index ! i) i s")
  obtain rest s2 where q: "runCallbacks ev sd index slots s1 = (rest, s2)"
    by (cases "runCallbacks ev sd index slots s1")
  have "s' = s2" using Cons.prems(1) p q by simp
  moreover have "frame K s s1" using marketPromise_frame [OF p] Cons.prems(2) by simp
  moreover have "frame K s1 s2" using Cons.IH [OF q] Cons.prems(2) by simp
  ultimately show ?case using frame_trans by blast
qed

lemma marketPromises_frame:
  assumes "marketPromises ev sd index s = (as, s')"
      and "(\<lambda>m. cacheKey ''polymarket'' m) ` set (i_makrtesIds index) \<subseteq> K"
  shows "frame K s s'"
proof -
  obtain settled s1 where
    r: "runCallbacks ev sd index (completionOrder ev (length (i_makrtesIds index))) s = (settled, s1)"
    by (cases "runCallbacks ev sd index (completionOrder ev (length (i_makrtesIds index))) s")
  have s': "s' = s1" using assms(1) r by (simp add: marketPromises_def)
  have "\<forall>i \<in> set (completionOrder ev (length (i_makrtesIds index))).
          cacheKey ''polymarket'' (i_makrtesIds index ! i) \<in> K"
    using assms(2) by (auto simp: set_completionOrder)
  from runCallbacks_frame [OF r this] show ?thesis by (simp add: s')
qed

lemma marketPromises_slots:
  assumes "marketPromises ev sd index s = (as, s')"
  shows "\<exists>settled. runCallbacks ev sd index (completionOrder ev (length (i_makrtesIds index))) s
                      = (settled, s')
           \<and> length as = length (i_makrtesIds index)
           \<and> (\<forall>j < length (i_makrtesIds index). (j, as ! j) \<in> set settled)"
proof -
  let ?n = "length (i_makrtesIds index)"
  obtain settled s1 where
    r: "runCallbacks ev sd index (completionOrder ev ?n) s = (settled, s1)"
    by (cases "runCallbacks ev sd index (completionOrder ev ?n) s")
  have s': "s' = s1" and as: "as = map snd (sort_key fst settled)"
    using assms r by (simp_all add: marketPromises_def)
  have slots: "map fst (sort_key fst settled) = [0 ..< ?n]"
    using runCallbacks_slots [OF r] by (simp add: map_sort_key sort_completionOrder)
  have len: "length (sort_key fst settled) = ?n"
    using slots by (metis length_map length_upt diff_zero)
  have "\<forall>j < ?n. (j, as ! j) \<in> set settled"
  proof (intro allI impI)
    fix j assume j: "j < ?n"
    have "fst (sort_key fst settled ! j) = [0 ..< ?n] ! j"
      using slots j len by (metis nth_map)
    then have f: "fst (sort_key fst settled ! j) = j" using j by simp
    have "sort_key fst settled ! j \<in> set (sort_key fst settled)"
      using j len by (intro nth_mem) (simp only:)
    then have "sort_key fst settled ! j \<in> set settled" by (simp only: set_sort)
    moreover have "as ! j = snd (sort_key fst settled ! j)"
      using as j len by simp
    ultimately show "(j, as ! j) \<in> set settled" using f by (metis prod.collapse)
  qed
  then show ?thesis using r s' as len by auto
qed

lemma getIndexWithData_unfold:
  "getIndexWithData ev sd indexId s =
     (case cachedIndexes s indexId of
        Some cached \<Rightarrow> (Inr cached, s)
      | None \<Rightarrow>
          (case getPredefinedIndex indexId of
             None \<Rightarrow> (Inl (Error (''Index with ID '' @ indexId @ '' not found'')), s)
           | Some predefinedIndex \<Rightarrow>
               (case marketPromises ev sd predefinedIndex s of
                  (markets, s1) \<Rightarrow>
                    (case calculateIndexFields ev (predefinedIndex\<lparr> i_markets := Some markets \<rparr>) s1 of
                       (index, s2) \<Rightarrow>
                         (Inr index, s2\<lparr> cachedIndexes := (cachedIndexes s2)(indexId \<mapsto> index) \<rparr>)))))"
  by (simp add: getIndexWithData_def getIndexWithData_try_def createFallbackIndex_def
           split: option.split prod.split)

lemma calculateIndexFields_state:
  "snd (calculateIndexFields ev index s) = s\<lparr> randoms := randoms (snd (calculateIndexFields ev index s)) \<rparr>"
  by (simp add: calculateIndexFields_def Let_def split: prod.split)

lemma resolution_frame:
  assumes "getIndexWithData ev sd indexId s = (r, s')"
  shows "\<exists>s2. frame ((\<lambda>m. cacheKey ''polymarket'' m) ` set (constituents indexId)) s s2
            \<and> objects s' = objects s2 \<and> cachedMarkets s' = cachedMarkets s2
            \<and> (\<forall>j. j \<noteq> indexId \<longrightarrow> cachedIndexes s' j = cachedIndexes s2 j)"
proof (cases "cachedIndexes s indexId")
  case (Some c)
  then have "s' = s" using assms by (simp add: getIndexWithData_unfold)
  then show ?thesis using frame_refl by blast
next
  case None
  show ?thesis
  proof (cases "getPredefinedIndex indexId")
    case None
    then have "s' = s" using assms \<open>cachedIndexes s indexId = None\<close> by (simp add: getIndexWithData_unfold)
    then show ?thesis using frame_refl by blast
  next
    case (Some d)
    obtain markets s1 where mp: "marketPromises ev sd d s = (markets, s1)"
      by (cases "marketPromises ev sd d s")
    obtain index s2 where cf: "calculateIndexFields ev (d\<lparr> i_markets := Some markets \<rparr>) s1 = (index, s2)"
      by (cases "calculateIndexFields ev (d\<lparr> i_markets := Some markets \<rparr>) s1")
    have s': "s' = s2\<lparr> cachedIndexes := (cachedIndexes s2)(indexId \<mapsto> index) \<rparr>"
      using assms \<open>cachedIndexes s indexId = None\<close> Some mp cf by (simp add: getIndexWithData_unfold)
    have f1: "frame ((\<lambda>m. cacheKey ''polymarket'' m) ` set (constituents indexId)) s s1"
      by (rule marketPromises_frame [OF mp]) (simp add: constituents_def Some)
    have s2: "s2 = s1\<lparr> randoms := randoms s2 \<rparr>"
      using calculateIndexFields_state [of ev "d\<lparr> i_markets := Some markets \<rparr>" s1] cf by simp
    have "frame ((\<lambda>m. cacheKey ''polymarket'' m) ` set (constituents indexId)) s1 s2"
      by (subst s2) (simp add: frame_def)
    with f1 have "frame ((\<lambda>m. cacheKey ''polymarket'' m) ` set (constituents indexId)) s s2"
      using frame_trans by blast
    then show ?thesis using s' by auto
  qed
qed

text \<open>
  C4: the claim holds for the market, order-book and index memos, and fails for the
  price-history memo. \<^verbatim>\<open>getMarketPriceHistory\<close> never writes to
  \<open>cachedPriceHistories\<close>: whatever the provider answers, the memo after the call is the
  memo before it, so a fetched history is not memoized and the next lookup fetches again.
\<close>

theorem getMarketPriceHistory_never_memoizes:
  "cachedPriceHistories (snd (getMarketPriceHistory sd provider marketId s)) = cachedPriceHistories s"
  by (rule getMarketPriceHistory_cache)

text \<open>
  The failing case of C4 on a fresh service: the provider answers, the memo stays empty,
  and the same request, made again when the provider has one more trade, is answered by
  the provider and not from the memo.
\<close>

lemma getMarketPriceHistory_refetches:
  "cachedPriceHistories (snd (getMarketPriceHistory sampleSdk ''polymarket'' ''534197'' newService))
     (cacheKey ''polymarket'' ''534197'') = None
   \<and> fst (getMarketPriceHistory laterSdk ''polymarket'' ''534197''
            (snd (getMarketPriceHistory sampleSdk ''polymarket'' ''534197'' newService)))
       = Inr [[trade 100 (1 / 2) 5, trade 200 (3 / 5) 4], [trade 150 (1 / 2) 5]]"
  by code_simp

text \<open>
  C2, as the code has it. \<^verbatim>\<open>Market\<close> objects are shared: the market cache hands the
  same object to every index that lists the market id, and a resolution writes to the
  objects of its own constituents in place. What a resolution of \<open>indexId\<close> leaves alone:
  every object that the market cache does not hold under one of the constituent ids of
  \<open>indexId\<close>, and the memoized index of every other id. The store only grows.
\<close>

theorem getIndexWithData_frame:
  "length (objects s) \<le> length (objects (snd (getIndexWithData ev sd indexId s)))
   \<and> (\<forall>a < length (objects s).
        (\<forall>m \<in> set (constituents indexId). cachedMarkets s (cacheKey ''polymarket'' m) \<noteq> Some a) \<longrightarrow>
        objects (snd (getIndexWithData ev sd indexId s)) ! a = objects s ! a)
   \<and> (\<forall>j. j \<noteq> indexId \<longrightarrow>
        cachedIndexes (snd (getIndexWithData ev sd indexId s)) j = cachedIndexes s j)"
proof -
  obtain r s' where g: "getIndexWithData ev sd indexId s = (r, s')"
    by (cases "getIndexWithData ev sd indexId s")
  from resolution_frame [OF g] obtain s2 where
    f: "frame ((\<lambda>m. cacheKey ''polymarket'' m) ` set (constituents indexId)) s s2"
    and o: "objects s' = objects s2"
    and c: "\<forall>j. j \<noteq> indexId \<longrightarrow> cachedIndexes s' j = cachedIndexes s2 j"
    by blast
  have 1: "length (objects s) \<le> length (objects s')" using f o by (simp add: frame_def)
  have 2: "\<forall>a < length (objects s).
        (\<forall>m \<in> set (constituents indexId). cachedMarkets s (cacheKey ''polymarket'' m) \<noteq> Some a) \<longrightarrow>
        objects s' ! a = objects s ! a"
    using f o by (simp add: frame_def)
  have 3: "\<forall>j. j \<noteq> indexId \<longrightarrow> cachedIndexes s' j = cachedIndexes s j"
    using f c by (simp add: frame_def)
  show ?thesis using g 1 2 3 by simp
qed


theorem getIndexWithData_frame_witness:
  "length (objects afterFirst) \<le> length (objects afterOther)
   \<and> objects afterOther ! 2 = objects afterFirst ! 2
   \<and> cachedIndexes afterOther ''reliable-forecast'' = cachedIndexes afterFirst ''reliable-forecast''"
proof -
  have len: "2 < length (objects afterFirst)" by code_simp
  have notCached: "\<forall>m \<in> set (constituents ''non-viable-candidate'').
          cachedMarkets afterFirst (cacheKey ''polymarket'' m) \<noteq> Some 2"
    by code_simp
  have ne: "''reliable-forecast'' \<noteq> ''non-viable-candidate''" by simp
  note t = getIndexWithData_frame [of afterFirst sampleEnv laterSdk "''non-viable-candidate''",
                                   folded afterOther_def]
  from t have 1: "length (objects afterFirst) \<le> length (objects afterOther)"
    by (rule conjunct1)
  from t have 2: "\<forall>a < length (objects afterFirst).
        (\<forall>m \<in> set (constituents ''non-viable-candidate'').
            cachedMarkets afterFirst (cacheKey ''polymarket'' m) \<noteq> Some a) \<longrightarrow>
        objects afterOther ! a = objects afterFirst ! a"
    by (rule conjunct1 [OF conjunct2])
  from t have 3: "\<forall>j. j \<noteq> ''non-viable-candidate'' \<longrightarrow>
        cachedIndexes afterOther j = cachedIndexes afterFirst j"
    by (rule conjunct2 [OF conjunct2])
  from 2 have "2 < length (objects afterFirst) \<longrightarrow>
        (\<forall>m \<in> set (constituents ''non-viable-candidate'').
            cachedMarkets afterFirst (cacheKey ''polymarket'' m) \<noteq> Some 2) \<longrightarrow>
        objects afterOther ! 2 = objects afterFirst ! 2"
    by (rule spec)
  from this len notCached have 4: "objects afterOther ! 2 = objects afterFirst ! 2"
    by (rule mp [THEN mp])
  from 3 have "''reliable-forecast'' \<noteq> ''non-viable-candidate'' \<longrightarrow>
        cachedIndexes afterOther ''reliable-forecast'' = cachedIndexes afterFirst ''reliable-forecast''"
    by (rule spec)
  from this ne have 5: "cachedIndexes afterOther ''reliable-forecast'' = cachedIndexes afterFirst ''reliable-forecast''"
    by (rule mp)
  from 1 4 5 show ?thesis by (intro conjI)
qed

text \<open>
  C2 as stated fails: ''reliable-forecast'' and ''90-percent-index'' share the markets
  544924 and 543148. After the first index is resolved and memoized, resolving the second
  one (when the provider reports one more trade) rewrites the volume of the two shared
  objects, and the memoized first index, which still refers to the same four objects,
  shows the new volumes.
\<close>

theorem shared_market_counterexample:
  "map_option i_markets (cachedIndexes afterFirst ''reliable-forecast'') = Some (Some [0, 1, 2, 3])
   \<and> map_option i_markets (cachedIndexes afterSecond ''reliable-forecast'') = Some (Some [0, 1, 2, 3])
   \<and> observedVolumes afterFirst ''reliable-forecast'' = Some [5, 5, 5, 5]
   \<and> observedVolumes afterSecond ''reliable-forecast'' = Some [5, 5, 9, 9]"
  by code_simp

subsection \<open>Total resolution\<close>

lemma getMarket_randoms:
  "getMarket ev sd provider marketId s = (r, s') \<Longrightarrow> randoms s' = randoms s"
  by (auto simp: getMarket_def Let_def split: option.splits sum.splits error.splits)

lemma getMarketPriceHistory_fails:
  assumes "isl (getPriceHistory sd provider marketId)"
      and "cachedPriceHistories s (cacheKey provider marketId) = None"
  shows "\<exists>e. getMarketPriceHistory sd provider marketId s = (Inl e, s)"
  using assms
  by (cases "getPriceHistory sd provider marketId")
     (auto simp: getMarketPriceHistory_def split: error.splits)

lemma marketPromise_fallback:
  assumes mp: "marketPromise ev sd index marketId i s = (a, s')"
      and fails: "isl (getPriceHistory sd ''polymarket'' marketId)"
      and nc: "cachedPriceHistories s (cacheKey ''polymarket'' marketId) = None"
      and K: "cacheKey ''polymarket'' marketId \<in> K"
  shows "\<exists>s3. frame K s s3 \<and> randoms s3 = randoms s \<and> a = length (objects s3)
              \<and> s' = s3\<lparr> objects := objects s3 @ [fallbackMarket ev marketId (length (i_makrtesIds index))
                                                   (codeAt (i_positionNames index) i) (randoms s)],
                         randoms := randoms s + 4 \<rparr>"
proof (cases "getMarket ev sd ''polymarket'' marketId s")
  case (Pair r s1)
  have f1: "frame K s s1" using Pair by (rule getMarket_frame)
  have r1: "randoms s1 = randoms s" using Pair by (rule getMarket_randoms)
  show ?thesis
  proof (cases r)
    case (Inl e)
    then have "createFallbackMarket ev marketId i (length (i_makrtesIds index))
                 (codeAt (i_positionNames index) i) s1 = (a, s')"
      using mp Pair by (simp add: marketPromise_def)
    then show ?thesis using f1 r1 by (auto simp: createFallbackMarket_def)
  next
    case (Inr market)
    let ?s2 = "updateObject market
                 (\<lambda>m. m\<lparr> m_position := Some (if codeAt (i_positionNames index) i = Some 1
                                              then ''YES'' else ''NO''),
                         m_proportion := 1 / real (length (i_makrtesIds index)) \<rparr>) s1"
    have c1: "cachedMarkets s1 (cacheKey ''polymarket'' marketId) = Some market"
      using Pair Inr getMarket_memoizes by simp
    have f2: "frame K s ?s2"
      using f1 updateObject_frame [OF c1 K] frame_trans by blast
    have nc2: "cachedPriceHistories ?s2 (cacheKey ''polymarket'' marketId) = None"
      using f1 nc by (simp add: updateObject_simps frame_def)
    obtain e where ph: "getMarketPriceHistory sd ''polymarket'' marketId ?s2 = (Inl e, ?s2)"
      using getMarketPriceHistory_fails [OF fails nc2] by blast
    have "createFallbackMarket ev marketId i (length (i_makrtesIds index))
                 (codeAt (i_positionNames index) i) ?s2 = (a, s')"
      using mp Pair Inr ph by (simp add: marketPromise_def Let_def)
    moreover have "randoms ?s2 = randoms s" using r1 by (simp add: updateObject_simps)
    ultimately show ?thesis using f2 by (auto simp: createFallbackMarket_def)
  qed
qed

lemma runCallbacks_fallback:
  assumes "runCallbacks ev sd index slots s = (settled, s')"
      and "cacheInv s"
      and "\<forall>i \<in> set slots. isl (getPriceHistory sd ''polymarket'' (i_makrtesIds index ! i))
             \<and> cachedPriceHistories s (cacheKey ''polymarket'' (i_makrtesIds index ! i)) = None"
  shows "\<forall>(i, a) \<in> set settled.
           \<exists>k. objects s' ! a
                 = fallbackMarket ev (i_makrtesIds index ! i) (length (i_makrtesIds index))
                     (codeAt (i_positionNames index) i) k"
  using assms
proof (induction slots arbitrary: s settled s')
  case Nil
  then show ?case by simp
next
  case (Cons i slots)
  let ?m = "i_makrtesIds index ! i"
  obtain a s1 where p: "marketPromise ev sd index ?m i s = (a, s1)"
    by (cases "marketPromise ev sd index ?m i s")
  obtain rest s2 where q: "runCallbacks ev sd index slots s1 = (rest, s2)"
    by (cases "runCallbacks ev sd index slots s1")
  have res: "settled = (i, a) # rest" "s' = s2" using Cons.prems(1) p q by simp_all
  have fails: "isl (getPriceHistory sd ''polymarket'' ?m)"
    and nc: "cachedPriceHistories s (cacheKey ''polymarket'' ?m) = None"
    using Cons.prems(3) by simp_all
  have K: "cacheKey ''polymarket'' ?m \<in> UNIV" by simp
  from marketPromise_fallback [OF p fails nc K] obtain s3 where
    f3: "frame UNIV s s3" and a: "a = length (objects s3)"
    and s1: "s1 = s3\<lparr> objects := objects s3 @ [fallbackMarket ev ?m (length (i_makrtesIds index))
                                                 (codeAt (i_positionNames index) i) (randoms s)],
                       randoms := randoms s + 4 \<rparr>"
    by blast
  have inv3: "cacheInv s3" using f3 Cons.prems(2) by (rule frame_cacheInv)
  have inv1: "cacheInv s1" using inv3 by (auto simp: s1 cacheInv_def less_Suc_eq)
  have ph1: "cachedPriceHistories s1 = cachedPriceHistories s"
    using f3 by (simp add: s1 frame_def)
  have hyp1: "\<forall>i \<in> set slots. isl (getPriceHistory sd ''polymarket'' (i_makrtesIds index ! i))
             \<and> cachedPriceHistories s1 (cacheKey ''polymarket'' (i_makrtesIds index ! i)) = None"
    using Cons.prems(3) ph1 by simp
  note IH = Cons.IH [OF q inv1 hyp1]
  have f12: "frame UNIV s1 s2"
    using runCallbacks_frame [OF q] by simp
  have a_lt: "a < length (objects s1)" by (simp add: s1 a)
  have "\<forall>key \<in> UNIV. cachedMarkets s1 key \<noteq> Some a"
  proof
    fix key :: string
    show "cachedMarkets s1 key \<noteq> Some a"
    proof
      assume "cachedMarkets s1 key = Some a"
      then have "cachedMarkets s3 key = Some a" by (simp add: s1)
      then have "a < length (objects s3)" using inv3 by (simp add: cacheInv_def)
      then show False using a by simp
    qed
  qed
  then have keep: "objects s2 ! a = objects s1 ! a"
    using f12 a_lt by (simp add: frame_def)
  have at_a: "objects s1 ! a = fallbackMarket ev ?m (length (i_makrtesIds index))
                                 (codeAt (i_positionNames index) i) (randoms s)"
    by (simp add: s1 a)
  have first: "\<exists>k. objects s' ! a = fallbackMarket ev ?m (length (i_makrtesIds index))
                                 (codeAt (i_positionNames index) i) k"
    using keep at_a res by auto
  show ?case using first IH res by auto
qed

lemma marketPromises_fallback:
  assumes "marketPromises ev sd index s = (as, s')"
      and "cacheInv s"
      and "\<forall>m \<in> set (i_makrtesIds index). isl (getPriceHistory sd ''polymarket'' m)
                         \<and> cachedPriceHistories s (cacheKey ''polymarket'' m) = None"
  shows "length as = length (i_makrtesIds index)
         \<and> (\<forall>j < length (i_makrtesIds index).
               \<exists>k. objects s' ! (as ! j)
                 = fallbackMarket ev (i_makrtesIds index ! j) (length (i_makrtesIds index))
                     (codeAt (i_positionNames index) j) k)"
proof -
  let ?n = "length (i_makrtesIds index)"
  from marketPromises_slots [OF assms(1)] obtain settled where
    r: "runCallbacks ev sd index (completionOrder ev ?n) s = (settled, s')"
    and len: "length as = ?n"
    and mem: "\<forall>j < ?n. (j, as ! j) \<in> set settled"
    by blast
  have "\<forall>i \<in> set (completionOrder ev ?n).
           isl (getPriceHistory sd ''polymarket'' (i_makrtesIds index ! i))
           \<and> cachedPriceHistories s (cacheKey ''polymarket'' (i_makrtesIds index ! i)) = None"
    using assms(3) by (simp add: set_completionOrder)
  from runCallbacks_fallback [OF r assms(2) this]
  have fb: "\<forall>(i, a) \<in> set settled.
           \<exists>k. objects s' ! a
                 = fallbackMarket ev (i_makrtesIds index ! i) ?n (codeAt (i_positionNames index) i) k" .
  have "\<forall>j < ?n. \<exists>k. objects s' ! (as ! j)
                 = fallbackMarket ev (i_makrtesIds index ! j) ?n (codeAt (i_positionNames index) j) k"
  proof (intro allI impI)
    fix j assume "j < ?n"
    then have "(j, as ! j) \<in> set settled" using mem by simp
    with fb show "\<exists>k. objects s' ! (as ! j)
                 = fallbackMarket ev (i_makrtesIds index ! j) ?n (codeAt (i_positionNames index) j) k"
      by fastforce
  qed
  with len show ?thesis by simp
qed

lemma calculateIndexFields_markets:
  "i_markets (fst (calculateIndexFields ev index s)) = i_markets index"
  by (simp add: calculateIndexFields_def Let_def split: prod.split)

lemma calculateIndexFields_objects:
  "objects (snd (calculateIndexFields ev index s)) = objects s"
  by (simp add: calculateIndexFields_def Let_def split: prod.split)

text \<open>
  C1, as the code has it. \<^verbatim>\<open>getIndexWithData\<close> returns an index, and lets no error
  out, for every id that is memoized or has a predefined definition. For an id that is
  neither, the error thrown by the lookup reaches the \<^verbatim>\<open>catch\<close> block, whose
  \<^verbatim>\<open>createFallbackIndex\<close> throws it again: the caller gets the error and the state is
  unchanged. For a predefined id that is not memoized, when the price-history fetch of
  every constituent fails (as it does when every fetch fails), the returned index has one
  market per declared constituent and each of them is a fallback market of its slot,
  built from four consecutive random numbers; which four depends on the order in which the
  callbacks reach their \<^verbatim>\<open>catch\<close> blocks.
\<close>

theorem getIndexWithData_total_predefined:
  "(cachedIndexes s indexId \<noteq> None \<or> getPredefinedIndex indexId \<noteq> None \<longrightarrow>
      (\<exists>index. fst (getIndexWithData ev sd indexId s) = Inr index))
   \<and> (cachedIndexes s indexId = None \<and> getPredefinedIndex indexId = None \<longrightarrow>
      getIndexWithData ev sd indexId s = (Inl (Error (''Index with ID '' @ indexId @ '' not found'')), s))
   \<and> (cachedIndexes s indexId = None \<and> getPredefinedIndex indexId \<noteq> None \<and> cacheInv s
      \<and> (\<forall>m \<in> set (constituents indexId).
             isl (getPriceHistory sd ''polymarket'' m)
             \<and> cachedPriceHistories s (cacheKey ''polymarket'' m) = None) \<longrightarrow>
      (\<exists>index as.
          fst (getIndexWithData ev sd indexId s) = Inr index
          \<and> i_markets index = Some as
          \<and> length as = length (constituents indexId)
          \<and> (\<forall>j < length (constituents indexId).
                \<exists>k. objects (snd (getIndexWithData ev sd indexId s)) ! (as ! j)
                  = fallbackMarket ev (constituents indexId ! j) (length (constituents indexId))
                      (codeAt (case getPredefinedIndex indexId of
                                 None \<Rightarrow> [] | Some d \<Rightarrow> i_positionNames d) j)
                      k)))"
proof (intro conjI impI)
  assume "cachedIndexes s indexId \<noteq> None \<or> getPredefinedIndex indexId \<noteq> None"
  then show "\<exists>index. fst (getIndexWithData ev sd indexId s) = Inr index"
    by (auto simp: getIndexWithData_unfold split: option.splits prod.splits)
next
  assume "cachedIndexes s indexId = None \<and> getPredefinedIndex indexId = None"
  then show "getIndexWithData ev sd indexId s
             = (Inl (Error (''Index with ID '' @ indexId @ '' not found'')), s)"
    by (simp add: getIndexWithData_unfold)
next
  assume h: "cachedIndexes s indexId = None \<and> getPredefinedIndex indexId \<noteq> None \<and> cacheInv s
      \<and> (\<forall>m \<in> set (constituents indexId).
             isl (getPriceHistory sd ''polymarket'' m)
             \<and> cachedPriceHistories s (cacheKey ''polymarket'' m) = None)"
  then obtain d where d: "getPredefinedIndex indexId = Some d" by auto
  have ids: "constituents indexId = i_makrtesIds d" using d by (simp add: constituents_def)
  obtain markets s1 where mp: "marketPromises ev sd d s = (markets, s1)"
    by (cases "marketPromises ev sd d s")
  let ?cf = "calculateIndexFields ev (d\<lparr> i_markets := Some markets \<rparr>) s1"
  have g: "getIndexWithData ev sd indexId s
           = (Inr (fst ?cf), (snd ?cf)\<lparr> cachedIndexes := (cachedIndexes (snd ?cf))(indexId \<mapsto> fst ?cf) \<rparr>)"
    using h d mp by (simp add: getIndexWithData_unfold split: prod.split)
  have fb: "length markets = length (i_makrtesIds d)
         \<and> (\<forall>j < length (i_makrtesIds d).
               \<exists>k. objects s1 ! (markets ! j)
                 = fallbackMarket ev (i_makrtesIds d ! j) (length (i_makrtesIds d))
                     (codeAt (i_positionNames d) j) k)"
    using marketPromises_fallback [OF mp] h ids by simp
  show "\<exists>index as.
          fst (getIndexWithData ev sd indexId s) = Inr index
          \<and> i_markets index = Some as
          \<and> length as = length (constituents indexId)
          \<and> (\<forall>j < length (constituents indexId).
                \<exists>k. objects (snd (getIndexWithData ev sd indexId s)) ! (as ! j)
                  = fallbackMarket ev (constituents indexId ! j) (length (constituents indexId))
                      (codeAt (case getPredefinedIndex indexId of
                                 None \<Rightarrow> [] | Some d \<Rightarrow> i_positionNames d) j)
                      k)"
    using fb by (simp add: g ids d calculateIndexFields_markets calculateIndexFields_objects)
qed

theorem getIndexWithData_total_predefined_witness:
  "\<exists>index as k.
      fst (getIndexWithData sampleEnv downSdk ''90-percent-index'' newService) = Inr index
      \<and> i_markets index = Some as
      \<and> length as = 4
      \<and> objects (snd (getIndexWithData sampleEnv downSdk ''90-percent-index'' newService)) ! (as ! 0)
          = fallbackMarket sampleEnv ''544924'' 4 (Some 1) k"
proof -
  have fresh: "cachedIndexes newService ''90-percent-index'' = None"
    by (simp add: newService_def)
  have known: "getPredefinedIndex ''90-percent-index'' \<noteq> None" by code_simp
  have inv: "cacheInv newService" by (simp add: cacheInv_def newService_def)
  have down: "\<forall>m \<in> set (constituents ''90-percent-index'').
             isl (getPriceHistory downSdk ''polymarket'' m)
             \<and> cachedPriceHistories newService (cacheKey ''polymarket'' m) = None"
    by (simp add: downSdk_def newService_def)
  have ids: "constituents ''90-percent-index'' = [''544924'', ''543148'', ''528716'', ''528717'']"
    by code_simp
  have code: "codeAt (case getPredefinedIndex ''90-percent-index'' of
                        None \<Rightarrow> [] | Some d \<Rightarrow> i_positionNames d) 0 = Some 1"
    by code_simp
  have len4: "length (constituents ''90-percent-index'') = 4" by (simp add: ids)
  note t = getIndexWithData_total_predefined [of newService "''90-percent-index''" sampleEnv downSdk]
  from t have "cachedIndexes newService ''90-percent-index'' = None
      \<and> getPredefinedIndex ''90-percent-index'' \<noteq> None \<and> cacheInv newService
      \<and> (\<forall>m \<in> set (constituents ''90-percent-index'').
             isl (getPriceHistory downSdk ''polymarket'' m)
             \<and> cachedPriceHistories newService (cacheKey ''polymarket'' m) = None) \<longrightarrow>
      (\<exists>index as.
          fst (getIndexWithData sampleEnv downSdk ''90-percent-index'' newService) = Inr index
          \<and> i_markets index = Some as
          \<and> length as = length (constituents ''90-percent-index'')
          \<and> (\<forall>j < length (constituents ''90-percent-index'').
                \<exists>k. objects (snd (getIndexWithData sampleEnv downSdk ''90-percent-index'' newService)) ! (as ! j)
                  = fallbackMarket sampleEnv (constituents ''90-percent-index'' ! j)
                      (length (constituents ''90-percent-index''))
                      (codeAt (case getPredefinedIndex ''90-percent-index'' of
                                 None \<Rightarrow> [] | Some d \<Rightarrow> i_positionNames d) j)
                      k))"
    by (rule conjunct2 [OF conjunct2])
  with fresh known inv down obtain index as where
    1: "fst (getIndexWithData sampleEnv downSdk ''90-percent-index'' newService) = Inr index"
    and 2: "i_markets index = Some as"
    and 3: "length as = length (constituents ''90-percent-index'')"
    and 4: "\<forall>j < length (constituents ''90-percent-index'').
                \<exists>k. objects (snd (getIndexWithData sampleEnv downSdk ''90-percent-index'' newService)) ! (as ! j)
                  = fallbackMarket sampleEnv (constituents ''90-percent-index'' ! j)
                      (length (constituents ''90-percent-index''))
                      (codeAt (case getPredefinedIndex ''90-percent-index'' of
                                 None \<Rightarrow> [] | Some d \<Rightarrow> i_positionNames d) j)
                      k"
    by blast
  have "0 < length (constituents ''90-percent-index'')" by (simp add: ids)
  with 4 obtain k where
    "objects (snd (getIndexWithData sampleEnv downSdk ''90-percent-index'' newService)) ! (as ! 0)
                  = fallbackMarket sampleEnv (constituents ''90-percent-index'' ! 0)
                      (length (constituents ''90-percent-index''))
                      (codeAt (case getPredefinedIndex ''90-percent-index'' of
                                 None \<Rightarrow> [] | Some d \<Rightarrow> i_positionNames d) 0)
                      k"
    by blast
  then have 5: "objects (snd (getIndexWithData sampleEnv downSdk ''90-percent-index'' newService)) ! (as ! 0)
                  = fallbackMarket sampleEnv ''544924'' 4 (Some 1) k"
    by (simp only: len4 code) (simp only: ids nth_Cons_0)
  from 3 have 6: "length as = 4" by (simp only: len4)
  from 1 2 6 5 show ?thesis by blast
qed

text \<open>
  The random numbers of the fallback markets follow the order in which the callbacks end.
  When the provider knows the market of slot 0 only and has no price history, the
  callbacks of slots 1 to 3 fail at once and that of slot 0 fails later: the fallback
  market of slot 0 is built from the random numbers 12 to 15.
\<close>

lemma getIndexWithData_completion_order:
  "map_option (\<lambda>index. map (\<lambda>m. (m_id m, m_price m, m_remainingHours m))
                         (marketsOf (snd (getIndexWithData lateEnv partialSdk ''90-percent-index'' newService)) index))
     (cachedIndexes (snd (getIndexWithData lateEnv partialSdk ''90-percent-index'' newService))
        ''90-percent-index'')
   = Some [(''544924'', 71 / 80, Fin 63), (''543148'', 117 / 160, Fin 18),
           (''528716'', 137 / 160, Fin 54), (''528717'', 61 / 80, Fin 27)]"
  by code_simp

text \<open>
  C1 as stated fails: an id without a predefined definition gets no fallback index, the
  error propagates.
\<close>

theorem getIndexWithData_unknown_counterexample:
  "getPredefinedIndex ''no-such-index'' = None
   \<and> fst (getIndexWithData sampleEnv sampleSdk ''no-such-index'' newService)
       = Inl (Error ''Index with ID no-such-index not found'')"
  by code_simp

subsection \<open>Index price history\<close>

lemma pushRecords_eq:
  "pushRecords ev rs (acc, k) = (acc @ tagFrom ev k rs, k + length rs)"
proof (induction rs arbitrary: acc k)
  case Nil
  show ?case by simp
next
  case (Cons r rs)
  have "\<lparr> t_price = t_price r, t_volumeBase = orZero (t_volumeBase r),
           t_timestamp = t_timestamp r, t_trader = Some (traderTag ev k) \<rparr>
        = r\<lparr> t_trader := Some (traderTag ev k) \<rparr>"
    by (simp add: orZero_def)
  then show ?case using Cons.IH by simp
qed

lemma tagFrom_append:
  "tagFrom ev k (xs @ ys) = tagFrom ev k xs @ tagFrom ev (k + length xs) ys"
  by (induction xs arbitrary: k) simp_all

lemma length_tagFrom: "length (tagFrom ev k rs) = length rs"
  by (induction rs arbitrary: k) simp_all

lemma collectRecords_eq:
  "collectRecords ev ps i markets (acc, k)
   = (acc @ tagFrom ev k (combinedSeries ps i markets), k + length (combinedSeries ps i markets))"
proof (induction markets arbitrary: i acc k)
  case Nil
  show ?case by simp
next
  case (Cons m ms)
  have step: "(case m_priceHistory m of
          None \<Rightarrow> (acc, k)
        | Some ph \<Rightarrow>
            (if length ph > 0 \<and> length (ph ! 0) > 0 then
               (let positionIndex = (if codeAt ps i = Some 1 then 0 else 1 :: nat);
                    positionHistory = (if positionIndex < length ph then ph ! positionIndex else ph ! 0)
                in pushRecords ev positionHistory (acc, k))
             else (acc, k)))
        = (acc @ tagFrom ev k (selectedSide ps i m), k + length (selectedSide ps i m))"
    by (auto simp: selectedSide_def pushRecords_eq Let_def split: option.split)
  show ?case
    by (simp only: collectRecords.simps step Cons.IH combinedSeries.simps tagFrom_append
                   length_append append_assoc add.assoc)
qed

lemma mockLoop_timestamps:
  "map t_timestamp (fst (mockLoop ev nw i price k acc))
   = map t_timestamp acc @ map (\<lambda>j. nw - real j * 86400) (rev [0 ..< Suc i])"
  by (induction i arbitrary: price k acc) (simp_all add: mockRecord_def)

lemma generateMockPriceHistory_fst:
  "fst (generateMockPriceHistory ev days s)
   = fst (mockLoop ev (real_of_int \<lfloor>now ev / 1000\<rfloor>) days
            (0.75 + random ev (randoms s) * 0.2) (randoms s + 1) [])"
  by (simp add: generateMockPriceHistory_def Let_def split: prod.split)

lemma generateMockPriceHistory_timestamps:
  "map t_timestamp (fst (generateMockPriceHistory ev days s))
   = map (\<lambda>j. real_of_int \<lfloor>now ev / 1000\<rfloor> - real j * 86400) (rev [0 ..< Suc days])"
  by (simp only: generateMockPriceHistory_fst mockLoop_timestamps list.map append_Nil)

lemma getIndexPriceHistory_unfold:
  "getIndexPriceHistory ev index s =
     (if i_markets index = None \<or> marketsOf s index = []
         \<or> combinedSeries (i_positionNames index) 0 (marketsOf s index) = []
      then generateMockPriceHistory ev 30 s
      else (sort_key t_timestamp
              (tagFrom ev (randoms s) (combinedSeries (i_positionNames index) 0 (marketsOf s index))),
            s\<lparr> randoms := randoms s + length (combinedSeries (i_positionNames index) 0 (marketsOf s index)) \<rparr>))"
proof -
  have e: "tagFrom ev k rs = [] \<longleftrightarrow> rs = []" for k rs
    using length_tagFrom [of ev k rs] by (metis length_0_conv)
  show ?thesis
    by (auto simp: getIndexPriceHistory_def collectRecords_eq e)
qed

lemma tagFrom_tagged: "r \<in> set (tagFrom ev k rs) \<Longrightarrow> t_trader r \<noteq> None"
  by (induction rs arbitrary: k) auto

lemma claimed_empty_combined_empty:
  "claimedSeries ps i ms = [] \<Longrightarrow> combinedSeries ps i ms = []"
  by (induction ms arbitrary: i)
     (auto simp: claimedSide_def selectedSide_def split: option.splits if_splits)

lemma generateMockPriceHistory_length:
  "length (fst (generateMockPriceHistory ev days s)) = Suc days"
proof -
  have "length (map t_timestamp (fst (generateMockPriceHistory ev days s))) = Suc days"
    by (simp add: generateMockPriceHistory_timestamps)
  then show ?thesis by simp
qed

lemma getIndexPriceHistory_mock_length:
  assumes "i_markets index = None \<or> marketsOf s index = []
           \<or> combinedSeries (i_positionNames index) 0 (marketsOf s index) = []"
  shows "length (fst (getIndexPriceHistory ev index s)) = 31"
proof -
  have "getIndexPriceHistory ev index s = generateMockPriceHistory ev 30 s"
    using assms by (simp only: getIndexPriceHistory_unfold if_True)
  then show ?thesis by (simp add: generateMockPriceHistory_length)
qed

text \<open>
  C5, as the code has it. A constituent contributes to the combined series only when its
  price history is present and the array at index 0 has a trade; it then contributes the
  array of its position side (position code 1: index 0, any other code: index 1, or
  index 0 when the history has no index 1). When the combined series is not empty, the
  result is the combined series in slot order, each record with a synthetic trader tag,
  sorted by timestamp (stably), so it ascends by timestamp.
\<close>

theorem getIndexPriceHistory_combined:
  assumes "i_markets index \<noteq> None"
      and "combinedSeries (i_positionNames index) 0 (marketsOf s index) \<noteq> []"
  shows "fst (getIndexPriceHistory ev index s)
           = sort_key t_timestamp
               (tagFrom ev (randoms s) (combinedSeries (i_positionNames index) 0 (marketsOf s index)))
         \<and> sorted (map t_timestamp (fst (getIndexPriceHistory ev index s)))
         \<and> (\<forall>r \<in> set (fst (getIndexPriceHistory ev index s)). t_trader r \<noteq> None)"
proof -
  have ne: "marketsOf s index \<noteq> []" using assms(2) by auto
  have c: "\<not> (i_markets index = None \<or> marketsOf s index = []
              \<or> combinedSeries (i_positionNames index) 0 (marketsOf s index) = [])"
    using assms ne by blast
  have eq: "fst (getIndexPriceHistory ev index s)
           = sort_key t_timestamp
               (tagFrom ev (randoms s) (combinedSeries (i_positionNames index) 0 (marketsOf s index)))"
    by (simp only: getIndexPriceHistory_unfold c if_False fst_conv)
  have srt: "sorted (map t_timestamp (sort_key t_timestamp
               (tagFrom ev (randoms s) (combinedSeries (i_positionNames index) 0 (marketsOf s index)))))"
    by (rule sorted_sort_key)
  have tg: "\<forall>r \<in> set (sort_key t_timestamp
               (tagFrom ev (randoms s) (combinedSeries (i_positionNames index) 0 (marketsOf s index)))).
             t_trader r \<noteq> None"
    using tagFrom_tagged by (simp only: set_sort) blast
  show ?thesis
    unfolding eq using srt tg by (intro conjI refl)
qed

theorem getIndexPriceHistory_combined_witness:
  "map (\<lambda>r. (t_timestamp r, t_price r, t_trader r))
       (fst (getIndexPriceHistory sampleEnv scenarioIndex scenarioService))
   = [(1, 1 / 2, Some ''0x8''), (3, 3 / 5, Some ''0x8''), (4, 9 / 20, Some ''0x8'')]"
proof -
  have m: "i_markets scenarioIndex \<noteq> None" by code_simp
  have c: "combinedSeries (i_positionNames scenarioIndex) 0 (marketsOf scenarioService scenarioIndex) \<noteq> []"
    by code_simp
  have v: "map (\<lambda>r. (t_timestamp r, t_price r, t_trader r))
             (sort_key t_timestamp
               (tagFrom sampleEnv (randoms scenarioService)
                  (combinedSeries (i_positionNames scenarioIndex) 0 (marketsOf scenarioService scenarioIndex))))
           = [(1, 1 / 2, Some ''0x8''), (3, 3 / 5, Some ''0x8''), (4, 9 / 20, Some ''0x8'')]"
    by code_simp
  from getIndexPriceHistory_combined [OF m c, of sampleEnv]
  have "fst (getIndexPriceHistory sampleEnv scenarioIndex scenarioService)
           = sort_key t_timestamp
               (tagFrom sampleEnv (randoms scenarioService)
                  (combinedSeries (i_positionNames scenarioIndex) 0 (marketsOf scenarioService scenarioIndex)))"
    by (rule conjunct1)
  then show ?thesis using v by (simp only:)
qed

text \<open>
  C5 as stated fails: a constituent held on the NO side whose index-0 array is empty
  contributes nothing, although its NO-side array has a trade; the result is then the
  synthetic series, not the one selected trade.
\<close>

theorem getIndexPriceHistory_side_counterexample:
  "claimedSeries (i_positionNames noSideIndex) 0 (marketsOf scenarioService noSideIndex)
     = [trade 4 (9 / 20) 0]
   \<and> length (fst (getIndexPriceHistory sampleEnv noSideIndex scenarioService)) = 31"
proof -
  have claimed: "claimedSeries (i_positionNames noSideIndex) 0 (marketsOf scenarioService noSideIndex)
     = [trade 4 (9 / 20) 0]"
    by code_simp
  have "combinedSeries (i_positionNames noSideIndex) 0 (marketsOf scenarioService noSideIndex) = []"
    by code_simp
  then have "length (fst (getIndexPriceHistory sampleEnv noSideIndex scenarioService)) = 31"
    by (intro getIndexPriceHistory_mock_length disjI2)
  with claimed show ?thesis by (intro conjI)
qed

text \<open>
  C6, as the code has it. When the index has no markets, or its combined series is empty
  (in the sense of the specification or of the code), the result is the synthetic series
  of \<^verbatim>\<open>generateMockPriceHistory(30)\<close>: 31 daily records, from 30 days before now to
  now. No call returns an empty series.
\<close>

theorem getIndexPriceHistory_synthetic:
  "(i_markets index = None \<or> marketsOf s index = []
      \<or> claimedSeries (i_positionNames index) 0 (marketsOf s index) = []
      \<or> combinedSeries (i_positionNames index) 0 (marketsOf s index) = [] \<longrightarrow>
      getIndexPriceHistory ev index s = generateMockPriceHistory ev 30 s
      \<and> length (fst (getIndexPriceHistory ev index s)) = 31
      \<and> map t_timestamp (fst (getIndexPriceHistory ev index s))
          = map (\<lambda>j. real_of_int \<lfloor>now ev / 1000\<rfloor> - real j * 86400) (rev [0 ..< 31]))
   \<and> fst (getIndexPriceHistory ev index s) \<noteq> []"
proof (intro conjI impI)
  assume h: "i_markets index = None \<or> marketsOf s index = []
      \<or> claimedSeries (i_positionNames index) 0 (marketsOf s index) = []
      \<or> combinedSeries (i_positionNames index) 0 (marketsOf s index) = []"
  then have e: "i_markets index = None \<or> marketsOf s index = []
      \<or> combinedSeries (i_positionNames index) 0 (marketsOf s index) = []"
    using claimed_empty_combined_empty by blast
  then show g: "getIndexPriceHistory ev index s = generateMockPriceHistory ev 30 s"
    by (simp only: getIndexPriceHistory_unfold if_True)
  have s31: "Suc 30 = (31::nat)" by simp
  have ts: "map t_timestamp (fst (generateMockPriceHistory ev 30 s))
          = map (\<lambda>j. real_of_int \<lfloor>now ev / 1000\<rfloor> - real j * 86400) (rev [0 ..< Suc 30])"
    by (rule generateMockPriceHistory_timestamps)
  show "map t_timestamp (fst (getIndexPriceHistory ev index s))
          = map (\<lambda>j. real_of_int \<lfloor>now ev / 1000\<rfloor> - real j * 86400) (rev [0 ..< 31])"
    unfolding g ts s31 by (rule refl)
  have "length (map t_timestamp (fst (generateMockPriceHistory ev 30 s))) = 31"
    by (simp add: ts)
  then show "length (fst (getIndexPriceHistory ev index s)) = 31"
    by (simp only: g length_map)
next
  show "fst (getIndexPriceHistory ev index s) \<noteq> []"
  proof (cases "i_markets index = None \<or> marketsOf s index = []
      \<or> combinedSeries (i_positionNames index) 0 (marketsOf s index) = []")
    case True
    have "length (map t_timestamp (fst (generateMockPriceHistory ev 30 s))) = 31"
      by (simp add: generateMockPriceHistory_timestamps)
    then have "fst (generateMockPriceHistory ev 30 s) \<noteq> []" by auto
    moreover have "getIndexPriceHistory ev index s = generateMockPriceHistory ev 30 s"
      using True by (simp only: getIndexPriceHistory_unfold if_True)
    ultimately show ?thesis by simp
  next
    case False
    have "fst (getIndexPriceHistory ev index s)
           = sort_key t_timestamp
               (tagFrom ev (randoms s) (combinedSeries (i_positionNames index) 0 (marketsOf s index)))"
      by (simp only: getIndexPriceHistory_unfold False if_False fst_conv)
    moreover have "tagFrom ev (randoms s) (combinedSeries (i_positionNames index) 0 (marketsOf s index)) \<noteq> []"
      using False length_tagFrom [of ev "randoms s" "combinedSeries (i_positionNames index) 0 (marketsOf s index)"]
      by (metis length_0_conv)
    ultimately show ?thesis using sort_nonempty by simp
  qed
qed

theorem getIndexPriceHistory_synthetic_witness:
  "combinedSeries (i_positionNames noSideIndex) 0 (marketsOf scenarioService noSideIndex) = []
   \<and> getIndexPriceHistory sampleEnv noSideIndex scenarioService
       = generateMockPriceHistory sampleEnv 30 scenarioService
   \<and> length (fst (getIndexPriceHistory sampleEnv noSideIndex scenarioService)) = 31
   \<and> fst (getIndexPriceHistory sampleEnv noSideIndex scenarioService) \<noteq> []"
proof -
  have c: "combinedSeries (i_positionNames noSideIndex) 0 (marketsOf scenarioService noSideIndex) = []"
    by code_simp
  note t = getIndexPriceHistory_synthetic [of noSideIndex scenarioService sampleEnv]
  from t have imp: "i_markets noSideIndex = None \<or> marketsOf scenarioService noSideIndex = []
      \<or> claimedSeries (i_positionNames noSideIndex) 0 (marketsOf scenarioService noSideIndex) = []
      \<or> combinedSeries (i_positionNames noSideIndex) 0 (marketsOf scenarioService noSideIndex) = [] \<longrightarrow>
      getIndexPriceHistory sampleEnv noSideIndex scenarioService
        = generateMockPriceHistory sampleEnv 30 scenarioService
      \<and> length (fst (getIndexPriceHistory sampleEnv noSideIndex scenarioService)) = 31
      \<and> map t_timestamp (fst (getIndexPriceHistory sampleEnv noSideIndex scenarioService))
          = map (\<lambda>j. real_of_int \<lfloor>now sampleEnv / 1000\<rfloor> - real j * 86400) (rev [0 ..< 31])"
    by (rule conjunct1)
  from t have ne: "fst (getIndexPriceHistory sampleEnv noSideIndex scenarioService) \<noteq> []"
    by (rule conjunct2)
  from c have "i_markets noSideIndex = None \<or> marketsOf scenarioService noSideIndex = []
      \<or> claimedSeries (i_positionNames noSideIndex) 0 (marketsOf scenarioService noSideIndex) = []
      \<or> combinedSeries (i_positionNames noSideIndex) 0 (marketsOf scenarioService noSideIndex) = []"
    by (intro disjI2)
  with imp have r: "getIndexPriceHistory sampleEnv noSideIndex scenarioService
        = generateMockPriceHistory sampleEnv 30 scenarioService
      \<and> length (fst (getIndexPriceHistory sampleEnv noSideIndex scenarioService)) = 31
      \<and> map t_timestamp (fst (getIndexPriceHistory sampleEnv noSideIndex scenarioService))
          = map (\<lambda>j. real_of_int \<lfloor>now sampleEnv / 1000\<rfloor> - real j * 86400) (rev [0 ..< 31])"
    by (rule mp)
  from r have r1: "getIndexPriceHistory sampleEnv noSideIndex scenarioService
        = generateMockPriceHistory sampleEnv 30 scenarioService" by (rule conjunct1)
  from r have r2: "length (fst (getIndexPriceHistory sampleEnv noSideIndex scenarioService)) = 31"
    by (rule conjunct1 [OF conjunct2])
  from c r1 r2 ne show ?thesis by (intro conjI)
qed

text \<open>C6 as stated fails: the synthetic series has 31 points, not 30.\<close>

theorem getIndexPriceHistory_points_counterexample:
  "i_markets (mkIndex ''empty'' ''Empty'' [] [] ''Active'' ''0x0'' ''3 days'') = None
   \<and> length (fst (getIndexPriceHistory sampleEnv
                    (mkIndex ''empty'' ''Empty'' [] [] ''Active'' ''0x0'' ''3 days'') newService)) = 31"
proof -
  have none: "i_markets (mkIndex ''empty'' ''Empty'' [] [] ''Active'' ''0x0'' ''3 days'') = None"
    by (simp add: mkIndex_def)
  then have "length (fst (getIndexPriceHistory sampleEnv
                    (mkIndex ''empty'' ''Empty'' [] [] ''Active'' ''0x0'' ''3 days'') newService)) = 31"
    by (intro getIndexPriceHistory_mock_length disjI1)
  with none show ?thesis by (intro conjI)
qed

subsection \<open>Composite fields\<close>

lemma yieldLoop_sum:
  "yieldLoop ps i ms y
   = y + sum_list (map (\<lambda>j. yieldContribution ps (i + j) (ms ! j)) [0 ..< length ms])"
proof (induction ms arbitrary: i y)
  case Nil
  show ?case by simp
next
  case (Cons m ms)
  have upt: "[0 ..< length (m # ms)] = 0 # map Suc [0 ..< length ms]"
    by (simp add: upt_conv_Cons map_Suc_upt del: upt_Suc)
  have step: "(if codeAt ps i = Some 1 \<and> m_price m > 0 then y + (1 / m_price m - 1) * 100
               else if \<not> codeAt ps i = Some 1 \<and> m_price m < 1 then y + (1 / (1 - m_price m) - 1) * 100
               else y)
              = y + yieldContribution ps i m"
    by (simp add: yieldContribution_def)
  show ?case
    by (simp only: yieldLoop.simps Let_def step Cons.IH upt list.map sum_list.Cons map_map o_def
                   nth_Cons_0 nth_Cons_Suc add_Suc_right add_Suc add_0_right add.assoc)
qed

lemma isDigit_digitChar: "n < 10 \<Longrightarrow> isDigit (digitChar n)"
proof -
  assume "n < 10"
  then have "n < length ''0123456789''" by simp
  then have "''0123456789'' ! n \<in> set ''0123456789''" by (rule nth_mem)
  then show ?thesis by (simp only: isDigit_def digitChar_def)
qed

lemma showNat_digits: "list_all isDigit (showNat n) \<and> showNat n \<noteq> []"
proof (induction n rule: showNat.induct)
  case (1 n)
  show ?case
  proof (cases "n < 10")
    case True
    then show ?thesis by (subst (1 2) showNat.simps) (simp add: isDigit_digitChar)
  next
    case False
    have "n mod 10 < 10" by simp
    then have "isDigit (digitChar (n mod 10))" by (rule isDigit_digitChar)
    then show ?thesis using False 1
      by (subst (1 2) showNat.simps) simp
  qed
qed

lemma isDigit_not_minus: "isDigit c \<Longrightarrow> c \<noteq> CHR ''-''"
  by (auto simp: isDigit_def)

lemma oneDecimal_fixedNotation: "oneDecimal (fixedNotation 1 x)"
proof -
  define s where "s = showNat (nat \<lfloor>\<bar>x\<bar> * 10 ^ 1 + 1 / 2\<rfloor>)"
  define padded where "padded = replicate (1 + 1 - length s) (CHR ''0'') @ s"
  define whole where "whole = take (length padded - 1) padded"
  define d where "d = last padded"
  have sd: "list_all isDigit s" and sne: "s \<noteq> []"
    using showNat_digits by (simp_all add: s_def)
  have zero: "isDigit (CHR ''0'')" by (simp add: isDigit_def)
  have pd: "list_all isDigit padded"
    using sd zero by (auto simp: padded_def list_all_iff)
  have plen: "2 \<le> length padded"
    by (simp add: padded_def)
  have pne: "padded \<noteq> []" using plen by auto
  have split: "padded = whole @ [d]"
    unfolding whole_def d_def butlast_conv_take [symmetric]
    using pne by simp
  have wne: "whole \<noteq> []" using plen split by auto
  have wd: "list_all isDigit whole" and dd: "isDigit d"
    using pd split by simp_all
  have lw: "length whole = length padded - 1" by (simp add: whole_def)
  have "[d] = drop (length whole) padded"
    using split [symmetric] by (simp only: append_eq_conv_conj)
  then have dr: "drop (length padded - 1) padded = [d]"
    by (simp only: lw)
  have "fixedNotation 1 x
          = (if x < 0 then ''-'' else '''') @ take (length padded - 1) padded
            @ ''.'' @ drop (length padded - 1) padded"
    unfolding fixedNotation_def Let_def padded_def s_def by simp
  then have fn: "fixedNotation 1 x = (if x < 0 then ''-'' else '''') @ whole @ ''.'' @ [d]"
    by (simp only: dr whole_def [symmetric])
  obtain w ws where wh: "whole = w # ws" using wne by (cases whole) auto
  have wn: "w \<noteq> CHR ''-''" using wd wh isDigit_not_minus by auto
  have body: "oneDecimal (whole @ ''.'' @ [d])"
    using wd dd wn by (simp add: oneDecimal_def Let_def wh nth_append)
  have neg: "oneDecimal (CHR ''-'' # (whole @ ''.'' @ [d]))"
    using wd dd by (simp add: oneDecimal_def Let_def wh nth_append)
  show ?thesis
  proof (cases "x < 0")
    case True
    then have "fixedNotation 1 x = CHR ''-'' # (whole @ ''.'' @ [d])" using fn by simp
    then show ?thesis using neg by (simp only:)
  next
    case False
    then have "fixedNotation 1 x = whole @ ''.'' @ [d]" using fn by simp
    then show ?thesis using body by (simp only:)
  qed
qed

lemma toFixed_below: "\<bar>x\<bar> < 10 ^ 21 \<Longrightarrow> toFixed ev digits x = fixedNotation digits x"
  by (simp add: toFixed_def)


text \<open>
  C8: for an index whose status is "inactive" in any letter case, the composite field
  computation sets the expired flag, replaces an unset (zero) \<open>confilmYield\<close> by 8.5, and
  sets \<open>yieldRange\<close> to \<^verbatim>\<open>"+<confilmYield>%"\<close>, \<open>priceChange24h\<close> to \<^verbatim>\<open>"+0.00%"\<close>,
  \<open>volume\<close> to 0.05 and \<open>marketCap\<close> to 0.1, whatever the store holds for its constituents.
\<close>

theorem calculateIndexFields_expired:
  assumes "toLowerCase (i_status index) = ''inactive''"
  shows "i_expired (fst (calculateIndexFields ev index s)) = Some True
       \<and> i_confilmYield (fst (calculateIndexFields ev index s))
           = (if i_confilmYield index = 0 then 8.5 else i_confilmYield index)
       \<and> i_yieldRange (fst (calculateIndexFields ev index s))
           = Some (''+'' @ numberToString ev (if i_confilmYield index = 0 then 8.5 else i_confilmYield index) @ ''%'')
       \<and> i_priceChange24h (fst (calculateIndexFields ev index s)) = Some ''+0.00%''
       \<and> i_volume (fst (calculateIndexFields ev index s)) = Some 0.05
       \<and> i_marketCap (fst (calculateIndexFields ev index s)) = Some 0.1"
  using assms
  by (simp add: calculateIndexFields_def Let_def split_beta if_distrib [of fst]
                if_distrib [of i_confilmYield] if_distrib [of i_expired])

theorem calculateIndexFields_expired_witness:
  "toLowerCase (i_status inactiveIndex) = ''inactive''
   \<and> i_expired (fst (calculateIndexFields sampleEnv inactiveIndex scenarioService)) = Some True
   \<and> i_confilmYield (fst (calculateIndexFields sampleEnv inactiveIndex scenarioService)) = 17 / 2
   \<and> i_yieldRange (fst (calculateIndexFields sampleEnv inactiveIndex scenarioService)) = Some ''+8.5%''
   \<and> i_priceChange24h (fst (calculateIndexFields sampleEnv inactiveIndex scenarioService)) = Some ''+0.00%''
   \<and> i_volume (fst (calculateIndexFields sampleEnv inactiveIndex scenarioService)) = Some (1 / 20)
   \<and> i_marketCap (fst (calculateIndexFields sampleEnv inactiveIndex scenarioService)) = Some (1 / 10)"
proof -
  have h: "toLowerCase (i_status inactiveIndex) = ''inactive''" by code_simp
  have cy: "i_confilmYield inactiveIndex = 0" by (simp add: inactiveIndex_def mkIndex_def)
  have ns: "numberToString sampleEnv (17 / 2) = ''8.5''" by (simp add: sampleEnv_def)
  show ?thesis
    using calculateIndexFields_expired [OF h, of sampleEnv scenarioService] h cy ns
    by simp
qed

text \<open>
  C9, as the code has it. For an index that is not expired and has \<open>n > 0\<close> resolved
  constituents, the yield is the sum over the constituents of \<open>(1/price - 1) * 100\<close>
  (position code 1 and positive price) or \<open>(1/(1 - price) - 1) * 100\<close> (another code and
  price below 1), divided by \<open>n\<close>; the loss is half of it; \<open>yieldRange\<close> is \<^verbatim>\<open>"+"\<close>,
  \<^verbatim>\<open>yieldValue.toFixed(1)\<close> and \<^verbatim>\<open>"%"\<close>, \<open>yieldLoss\<close> is \<^verbatim>\<open>"-"\<close>, \<^verbatim>\<open>lossValue.toFixed(1)\<close>
  and \<^verbatim>\<open>"%"\<close>. While the yield is below \<open>10^21\<close> in absolute value both numbers are
  written in fixed notation with one decimal.
\<close>

theorem calculateIndexFields_yield:
  assumes "toLowerCase (i_status index) \<noteq> ''inactive''"
      and "marketsOf s index \<noteq> []"
  shows "i_yieldRange (fst (calculateIndexFields ev index s))
           = Some (''+'' @ toFixed ev 1 (yieldValueSpec (i_positionNames index) (marketsOf s index)) @ ''%'')
         \<and> i_yieldLoss (fst (calculateIndexFields ev index s))
           = Some (''-'' @ toFixed ev 1 (yieldValueSpec (i_positionNames index) (marketsOf s index) * 0.5) @ ''%'')
         \<and> (\<bar>yieldValueSpec (i_positionNames index) (marketsOf s index)\<bar> < 10 ^ 21 \<longrightarrow>
              toFixed ev 1 (yieldValueSpec (i_positionNames index) (marketsOf s index))
                = fixedNotation 1 (yieldValueSpec (i_positionNames index) (marketsOf s index))
              \<and> toFixed ev 1 (yieldValueSpec (i_positionNames index) (marketsOf s index) * 0.5)
                = fixedNotation 1 (yieldValueSpec (i_positionNames index) (marketsOf s index) * 0.5)
              \<and> oneDecimal (toFixed ev 1 (yieldValueSpec (i_positionNames index) (marketsOf s index)))
              \<and> oneDecimal (toFixed ev 1 (yieldValueSpec (i_positionNames index) (marketsOf s index) * 0.5)))"
proof -
  let ?v = "yieldValueSpec (i_positionNames index) (marketsOf s index)"
  have y: "yieldLoop (i_positionNames index) 0 (marketsOf s index) 0 / real (length (marketsOf s index))
           = ?v"
    by (simp add: yieldLoop_sum yieldValueSpec_def)
  have fields: "i_yieldRange (fst (calculateIndexFields ev index s)) = Some (''+'' @ toFixed ev 1 ?v @ ''%'')
         \<and> i_yieldLoss (fst (calculateIndexFields ev index s)) = Some (''-'' @ toFixed ev 1 (?v * 0.5) @ ''%'')"
    using assms
    by (simp add: calculateIndexFields_def Let_def y [symmetric] split: prod.split)
  have fmt: "\<bar>?v\<bar> < 10 ^ 21 \<longrightarrow>
              toFixed ev 1 ?v = fixedNotation 1 ?v
              \<and> toFixed ev 1 (?v * 0.5) = fixedNotation 1 (?v * 0.5)
              \<and> oneDecimal (toFixed ev 1 ?v)
              \<and> oneDecimal (toFixed ev 1 (?v * 0.5))"
  proof
    assume b: "\<bar>?v\<bar> < 10 ^ 21"
    then have b2: "\<bar>?v * 0.5\<bar> < 10 ^ 21" by (simp add: abs_mult)
    show "toFixed ev 1 ?v = fixedNotation 1 ?v
              \<and> toFixed ev 1 (?v * 0.5) = fixedNotation 1 (?v * 0.5)
              \<and> oneDecimal (toFixed ev 1 ?v)
              \<and> oneDecimal (toFixed ev 1 (?v * 0.5))"
      by (simp only: toFixed_below [OF b] toFixed_below [OF b2] oneDecimal_fixedNotation simp_thms)
  qed
  from fields fmt show ?thesis by (intro conjI) (erule conjunct1, erule conjunct2)
qed


theorem calculateIndexFields_yield_witness:
  "toLowerCase (i_status scenarioIndex) \<noteq> ''inactive''
   \<and> map m_price (marketsOf scenarioService scenarioIndex) = [4 / 5, 3 / 10]
   \<and> i_positionNames scenarioIndex = [1, 2]
   \<and> i_yieldRange (fst (calculateIndexFields sampleEnv scenarioIndex scenarioService)) = Some ''+33.9%''
   \<and> i_yieldLoss (fst (calculateIndexFields sampleEnv scenarioIndex scenarioService)) = Some ''-17.0%''
   \<and> oneDecimal ''33.9''
   \<and> oneDecimal ''17.0''"
proof -
  have h: "toLowerCase (i_status scenarioIndex) \<noteq> ''inactive''" by code_simp
  have p: "map m_price (marketsOf scenarioService scenarioIndex) = [4 / 5, 3 / 10]" by code_simp
  have c: "i_positionNames scenarioIndex = [1, 2]" by code_simp
  have ne: "marketsOf scenarioService scenarioIndex \<noteq> []" using p by auto
  have b: "\<bar>yieldValueSpec (i_positionNames scenarioIndex)
             (marketsOf scenarioService scenarioIndex)\<bar> < 10 ^ 21"
    by code_simp
  have y: "toFixed sampleEnv 1 (yieldValueSpec (i_positionNames scenarioIndex)
                        (marketsOf scenarioService scenarioIndex)) = ''33.9''"
    by code_simp
  have l: "toFixed sampleEnv 1 (yieldValueSpec (i_positionNames scenarioIndex)
                        (marketsOf scenarioService scenarioIndex) * 0.5) = ''17.0''"
    by code_simp
  note t = calculateIndexFields_yield [OF h ne, of sampleEnv]
  from t have "i_yieldRange (fst (calculateIndexFields sampleEnv scenarioIndex scenarioService))
           = Some (''+'' @ toFixed sampleEnv 1 (yieldValueSpec (i_positionNames scenarioIndex)
                                        (marketsOf scenarioService scenarioIndex)) @ ''%'')"
    by (rule conjunct1)
  then have r1: "i_yieldRange (fst (calculateIndexFields sampleEnv scenarioIndex scenarioService))
                   = Some ''+33.9%''"
    by (simp only: y append.simps)
  from t have "i_yieldLoss (fst (calculateIndexFields sampleEnv scenarioIndex scenarioService))
           = Some (''-'' @ toFixed sampleEnv 1 (yieldValueSpec (i_positionNames scenarioIndex)
                                        (marketsOf scenarioService scenarioIndex) * 0.5) @ ''%'')"
    by (rule conjunct1 [OF conjunct2])
  then have r2: "i_yieldLoss (fst (calculateIndexFields sampleEnv scenarioIndex scenarioService))
                   = Some ''-17.0%''"
    by (simp only: l append.simps)
  from t have "\<bar>yieldValueSpec (i_positionNames scenarioIndex)
                  (marketsOf scenarioService scenarioIndex)\<bar> < 10 ^ 21 \<longrightarrow>
      toFixed sampleEnv 1 (yieldValueSpec (i_positionNames scenarioIndex) (marketsOf scenarioService scenarioIndex))
        = fixedNotation 1 (yieldValueSpec (i_positionNames scenarioIndex) (marketsOf scenarioService scenarioIndex))
      \<and> toFixed sampleEnv 1 (yieldValueSpec (i_positionNames scenarioIndex) (marketsOf scenarioService scenarioIndex) * 0.5)
        = fixedNotation 1 (yieldValueSpec (i_positionNames scenarioIndex) (marketsOf scenarioService scenarioIndex) * 0.5)
      \<and> oneDecimal (toFixed sampleEnv 1 (yieldValueSpec (i_positionNames scenarioIndex) (marketsOf scenarioService scenarioIndex)))
      \<and> oneDecimal (toFixed sampleEnv 1 (yieldValueSpec (i_positionNames scenarioIndex) (marketsOf scenarioService scenarioIndex) * 0.5))"
    by (rule conjunct2 [OF conjunct2])
  from this b have fmt:
     "toFixed sampleEnv 1 (yieldValueSpec (i_positionNames scenarioIndex) (marketsOf scenarioService scenarioIndex))
        = fixedNotation 1 (yieldValueSpec (i_positionNames scenarioIndex) (marketsOf scenarioService scenarioIndex))
      \<and> toFixed sampleEnv 1 (yieldValueSpec (i_positionNames scenarioIndex) (marketsOf scenarioService scenarioIndex) * 0.5)
        = fixedNotation 1 (yieldValueSpec (i_positionNames scenarioIndex) (marketsOf scenarioService scenarioIndex) * 0.5)
      \<and> oneDecimal (toFixed sampleEnv 1 (yieldValueSpec (i_positionNames scenarioIndex) (marketsOf scenarioService scenarioIndex)))
      \<and> oneDecimal (toFixed sampleEnv 1 (yieldValueSpec (i_positionNames scenarioIndex) (marketsOf scenarioService scenarioIndex) * 0.5))"
    by (rule mp)
  from fmt have "oneDecimal (toFixed sampleEnv 1 (yieldValueSpec (i_positionNames scenarioIndex)
                   (marketsOf scenarioService scenarioIndex)))"
    by (rule conjunct1 [OF conjunct2 [OF conjunct2]])
  then have o1: "oneDecimal ''33.9''" by (simp only: y)
  from fmt have "oneDecimal (toFixed sampleEnv 1 (yieldValueSpec (i_positionNames scenarioIndex)
                   (marketsOf scenarioService scenarioIndex) * 0.5))"
    by (rule conjunct2 [OF conjunct2 [OF conjunct2]])
  then have o2: "oneDecimal ''17.0''" by (simp only: l)
  from h p c r1 r2 o1 o2 show ?thesis by (intro conjI)
qed

text \<open>
  C9 as stated fails: with a single constituent held on the YES side at a price of
  \<open>10^-22\<close> the yield is about \<open>10^24\<close>, and \<^verbatim>\<open>toFixed(1)\<close> writes it in exponent notation,
  not with one decimal.
\<close>

theorem calculateIndexFields_exponent_counterexample:
  "m_price (objects scenarioService ! 3) = 1 / 10 ^ 22
   \<and> i_positionNames tinyPriceIndex = [1]
   \<and> i_yieldRange (fst (calculateIndexFields sampleEnv tinyPriceIndex scenarioService)) = Some ''+1e+24%''
   \<and> i_yieldLoss (fst (calculateIndexFields sampleEnv tinyPriceIndex scenarioService)) = Some ''-5e+23%''
   \<and> \<not> oneDecimal ''1e+24''"
  by code_simp

end
